theory Spec2Isabelle
  imports Complex_Main "HOL-Library.Log_Nat"
begin

section \<open>Python numbers\<close>

text \<open>
  The dashboard script \<^verbatim>\<open>app.py\<close> computes with two kinds of Python numbers: unbounded
  integers (the values of the integer sliders and of \<^verbatim>\<open>number_input\<close> called with an integer
  default) and binary64 floats (the float sliders, the literals \<^verbatim>\<open>0.2\<close> and \<^verbatim>\<open>0.4\<close>, the
  results of \<^verbatim>\<open>/\<close>, and the probabilities returned by the classifier).

  A finite binary64 number is written \<open>Fin64 m e\<close> and stands for the rational \<open>m * 2^e\<close>, with
  \<open>\<bar>m\<bar> < 2^53\<close> and \<open>-1074 \<le> e \<le> 971\<close>. The sign of a zero is not kept: no comparison and no
  division of the script can tell the two zeros apart.
\<close>

datatype float64 = Fin64 int int | Inf64 bool | NaN64

definition value64 :: "int \<Rightarrow> int \<Rightarrow> rat" where
  "value64 m e = of_int m * 2 powi e"

definition valid64 :: "int \<Rightarrow> int \<Rightarrow> bool" where
  "valid64 m e \<longleftrightarrow> \<bar>m\<bar> < 2 ^ 53 \<and> - 1074 \<le> e \<and> e \<le> 971"

text \<open>Python's \<^verbatim>\<open><\<close> and \<^verbatim>\<open><=\<close> on floats: a comparison with NaN is false.\<close>

fun flt :: "float64 \<Rightarrow> float64 \<Rightarrow> bool" where
  "flt (Fin64 m e) (Fin64 n f) = (value64 m e < value64 n f)"
| "flt (Fin64 m e) (Inf64 neg) = (\<not> neg)"
| "flt (Inf64 neg) (Fin64 n f) = neg"
| "flt (Inf64 neg) (Inf64 neg') = (neg \<and> \<not> neg')"
| "flt NaN64 y = False"
| "flt x NaN64 = False"

fun fle :: "float64 \<Rightarrow> float64 \<Rightarrow> bool" where
  "fle (Fin64 m e) (Fin64 n f) = (value64 m e \<le> value64 n f)"
| "fle (Fin64 m e) (Inf64 neg) = (\<not> neg)"
| "fle (Inf64 neg) (Fin64 n f) = neg"
| "fle (Inf64 neg) (Inf64 neg') = (neg \<or> \<not> neg')"
| "fle NaN64 y = False"
| "fle x NaN64 = False"

text \<open>
  Rounding a rational to the nearest binary64 number, ties to the even mantissa. For \<open>a > 0\<close>,
  \<open>floor_log2 a\<close> is the \<open>k\<close> with \<open>2^k \<le> a < 2^(k+1)\<close>; the mantissa gets 53 bits, fewer in
  the subnormal range; a mantissa rounded up to \<open>2^53\<close> moves to the next exponent, and a
  result of \<open>2^1024\<close> or more is an infinity.
\<close>

definition floor_log2 :: "rat \<Rightarrow> int" where
  "floor_log2 a = (let (n, d) = quotient_of a; k = bitlen n - bitlen d
                   in if 2 powi k \<le> a then k else k - 1)"

definition round_half_even :: "rat \<Rightarrow> int" where
  "round_half_even x =
     (let f = \<lfloor>x\<rfloor>; r = x - of_int f
      in if r < 1 / 2 then f else if 1 / 2 < r then f + 1 else if even f then f else f + 1)"

definition exponent64 :: "rat \<Rightarrow> int" where
  "exponent64 a = max (floor_log2 a - 52) (- 1074)"

definition mantissa64 :: "rat \<Rightarrow> int" where
  "mantissa64 a = round_half_even (a / 2 powi exponent64 a)"

definition round64 :: "rat \<Rightarrow> float64" where
  "round64 q =
     (if q = 0 then Fin64 0 0
      else let a = \<bar>q\<bar>;
               (m, e) = (if mantissa64 a = 2 ^ 53 then (2 ^ 52, exponent64 a + 1)
                         else (mantissa64 a, exponent64 a))
           in if 971 < e then Inf64 (q < 0) else Fin64 (if q < 0 then - m else m) e)"

text \<open>A float literal of the source denotes the binary64 number nearest to its decimal value.\<close>

definition float_lit :: "rat \<Rightarrow> float64" where
  "float_lit q = round64 q"

datatype py_error = ZeroDivisionError | OverflowError | IndexError | ScoringError

datatype pynum = PyInt int | PyFloat float64

text \<open>
  \<^verbatim>\<open>a / b\<close> on two Python integers: the correctly rounded quotient as a float;
  \<^verbatim>\<open>ZeroDivisionError\<close> for a zero divisor, \<^verbatim>\<open>OverflowError\<close> when the quotient is too large
  for a float.
\<close>

definition truediv :: "int \<Rightarrow> int \<Rightarrow> py_error + pynum" where
  "truediv a b =
     (if b = 0 then Inl ZeroDivisionError
      else case round64 (of_int a / of_int b) of
             Fin64 m e \<Rightarrow> Inr (PyFloat (Fin64 m e))
           | Inf64 neg \<Rightarrow> Inl OverflowError
           | NaN64 \<Rightarrow> Inl OverflowError)"

text \<open>The rational a number stands for; infinities and NaN stand for none.\<close>

fun num_value :: "pynum \<Rightarrow> rat option" where
  "num_value (PyInt i) = Some (of_int i)"
| "num_value (PyFloat (Fin64 m e)) = Some (value64 m e)"
| "num_value (PyFloat (Inf64 neg)) = None"
| "num_value (PyFloat NaN64) = None"

definition non_negative :: "pynum \<Rightarrow> bool" where
  "non_negative v = (case num_value v of Some x \<Rightarrow> 0 \<le> x | None \<Rightarrow> False)"

definition negative :: "pynum \<Rightarrow> bool" where
  "negative v = (case num_value v of Some x \<Rightarrow> x < 0 | None \<Rightarrow> False)"

section \<open>Sidebar input\<close>

text \<open>
  The values the sidebar widgets return in one run of the script, under the names of the
  script's variables.
\<close>

record sidebar =
  age :: int
  income :: int
  loan_amount :: int
  credit_score :: int
  months_employed :: int
  num_credit_lines :: int
  interest_rate :: float64
  loan_term :: int
  dti_ratio :: float64
  education :: string
  employment_type :: string
  marital_status :: string
  has_mortgage :: string
  has_dependents :: string
  loan_purpose :: string
  has_cosigner :: string

text \<open>
  What the widgets can return. A slider returns a value between its bounds, a selectbox one of
  its options; the two \<^verbatim>\<open>number_input\<close> calls give no \<^verbatim>\<open>min_value\<close> and no
  \<^verbatim>\<open>max_value\<close>, so \<open>income\<close> and \<open>loan_amount\<close> are not constrained here: they can be
  negative. (Streamlit keeps an integer input within \<open>2^53\<close> in magnitude, far inside the
  bound \<open>2^1023\<close> under which a quotient cannot overflow.)
\<close>

definition slider :: "int \<Rightarrow> int \<Rightarrow> int \<Rightarrow> bool" where
  "slider lo hi v \<longleftrightarrow> lo \<le> v \<and> v \<le> hi"

definition fslider :: "rat \<Rightarrow> rat \<Rightarrow> float64 \<Rightarrow> bool" where
  "fslider lo hi v \<longleftrightarrow>
     (case v of Fin64 m e \<Rightarrow> valid64 m e | _ \<Rightarrow> False) \<and> fle (float_lit lo) v \<and> fle v (float_lit hi)"

definition selectbox :: "'a list \<Rightarrow> 'a \<Rightarrow> bool" where
  "selectbox options v \<longleftrightarrow> v \<in> set options"

definition widgets :: "sidebar \<Rightarrow> bool" where
  "widgets s \<longleftrightarrow>
     slider 18 70 (age s) \<and>
     slider 300 850 (credit_score s) \<and>
     slider 0 480 (months_employed s) \<and>
     slider 0 15 (num_credit_lines s) \<and>
     fslider 1.0 25.0 (interest_rate s) \<and>
     selectbox [120, 180, 240, 300, 360] (loan_term s) \<and>
     fslider 0.0 1.0 (dti_ratio s) \<and>
     selectbox [''High School'', ''Bachelor'', ''Master'', ''PhD''] (education s) \<and>
     selectbox [''Salaried'', ''Self-Employed'', ''Unemployed''] (employment_type s) \<and>
     selectbox [''Single'', ''Married'', ''Divorced''] (marital_status s) \<and>
     selectbox [''Yes'', ''No''] (has_mortgage s) \<and>
     selectbox [''Yes'', ''No''] (has_dependents s) \<and>
     selectbox [''Home Purchase'', ''Refinance'', ''Investment''] (loan_purpose s) \<and>
     selectbox [''Yes'', ''No''] (has_cosigner s)"

text \<open>The widgets' initial values: the defaults given in the calls, the first option of a selectbox.\<close>

definition initial_sidebar :: sidebar where
  "initial_sidebar =
     \<lparr>age = 35, income = 80000, loan_amount = 200000, credit_score = 650,
      months_employed = 60, num_credit_lines = 5, interest_rate = float_lit 7.5,
      loan_term = 120, dti_ratio = float_lit 0.35, education = ''High School'',
      employment_type = ''Salaried'', marital_status = ''Single'', has_mortgage = ''Yes'',
      has_dependents = ''Yes'', loan_purpose = ''Home Purchase'', has_cosigner = ''Yes''\<rparr>"

section \<open>Feature engineering\<close>

text \<open>
  Lines 104 to 106. The arguments are the script's variables: \<open>loan\<close> is \<^verbatim>\<open>loan_amount\<close>,
  \<open>inc\<close> is \<^verbatim>\<open>income\<close>, \<open>months\<close> is \<^verbatim>\<open>months_employed\<close>, \<open>years\<close> is \<^verbatim>\<open>age\<close> and
  \<open>lines\<close> is \<^verbatim>\<open>num_credit_lines\<close>.
\<close>

definition loan_to_income :: "int \<Rightarrow> int \<Rightarrow> py_error + pynum" where
  "loan_to_income loan inc =
     (if inc > 0 then truediv loan inc else Inr (PyInt 0))"

definition employment_ratio :: "int \<Rightarrow> int \<Rightarrow> py_error + pynum" where
  "employment_ratio months years =
     (if years > 0 then truediv months years else Inr (PyInt 0))"

definition credit_utilization_proxy :: "int \<Rightarrow> int \<Rightarrow> py_error + pynum" where
  "credit_utilization_proxy loan lines =
     truediv loan (lines + 1)"

text \<open>The single row of the data frame \<^verbatim>\<open>input_data\<close>, one field per column.\<close>

record input_data =
  Age :: int
  Income :: int
  LoanAmount :: int
  CreditScore :: int
  MonthsEmployed :: int
  NumCreditLines :: int
  InterestRate :: float64
  LoanTerm :: int
  DTIRatio :: float64
  LoanToIncome :: pynum
  EmploymentRatio :: pynum
  CreditUtilizationProxy :: pynum
  Education :: string
  EmploymentType :: string
  MaritalStatus :: string
  HasMortgage :: string
  HasDependents :: string
  LoanPurpose :: string
  HasCoSigner :: string

text \<open>
  Lines 104 to 128 of the script: the three ratios in the order of the source, an exception of
  a division ending the run, then the data frame. The lines read the widget values and assign
  new variables, and call nothing that keeps state; this is why they are written as a
  function of the sidebar record.
\<close>

definition feature_engineering :: "sidebar \<Rightarrow> py_error + input_data" where
  "feature_engineering s =
     (case loan_to_income (loan_amount s) (income s) of
        Inl err \<Rightarrow> Inl err
      | Inr lti \<Rightarrow>
     (case employment_ratio (months_employed s) (age s) of
        Inl err \<Rightarrow> Inl err
      | Inr er \<Rightarrow>
     (case credit_utilization_proxy (loan_amount s) (num_credit_lines s) of
        Inl err \<Rightarrow> Inl err
      | Inr cup \<Rightarrow>
          Inr \<lparr>Age = age s, Income = income s, LoanAmount = loan_amount s,
               CreditScore = credit_score s, MonthsEmployed = months_employed s,
               NumCreditLines = num_credit_lines s, InterestRate = interest_rate s,
               LoanTerm = loan_term s, DTIRatio = dti_ratio s,
               LoanToIncome = lti, EmploymentRatio = er, CreditUtilizationProxy = cup,
               Education = education s, EmploymentType = employment_type s,
               MaritalStatus = marital_status s, HasMortgage = has_mortgage s,
               HasDependents = has_dependents s, LoanPurpose = loan_purpose s,
               HasCoSigner = has_cosigner s\<rparr>)))"

text \<open>The base fields of a row, read back as sidebar values.\<close>

definition base_record :: "input_data \<Rightarrow> sidebar" where
  "base_record d =
     \<lparr>age = Age d, income = Income d, loan_amount = LoanAmount d,
      credit_score = CreditScore d, months_employed = MonthsEmployed d,
      num_credit_lines = NumCreditLines d, interest_rate = InterestRate d,
      loan_term = LoanTerm d, dti_ratio = DTIRatio d, education = Education d,
      employment_type = EmploymentType d, marital_status = MaritalStatus d,
      has_mortgage = HasMortgage d, has_dependents = HasDependents d,
      loan_purpose = LoanPurpose d, has_cosigner = HasCoSigner d\<rparr>"

section \<open>Gauge\<close>

text \<open>
  The figure \<^verbatim>\<open>plot_gauge\<close> returns: the grey track of width 1, the coloured bar of width
  \<open>probability\<close>, and the label, placed at \<open>probability\<close> and showing it as a percentage
  (the number is kept, not its formatted text).
\<close>

record figure =
  track_width :: int
  track_color :: string
  bar_width :: float64
  bar_color :: string
  label_x :: float64
  label_value :: float64
  title :: string

definition plot_gauge :: "float64 \<Rightarrow> figure" where
  "plot_gauge probability =
     (let color = (if flt probability (float_lit 0.2) then ''#2ecc71''
                   else if flt probability (float_lit 0.4) then ''#f39c12''
                   else ''#e74c3c'')
      in \<lparr>track_width = 1, track_color = ''#e0e0e0'', bar_width = probability,
          bar_color = color, label_x = probability, label_value = probability,
          title = ''Default Risk Gauge''\<rparr>)"

section \<open>Risk prediction\<close>

text \<open>
  The branch under the button. The labels of the source start with a coloured circle; it is
  written here as the four bytes of its UTF-8 encoding.
\<close>

definition green_circle :: string where
  "green_circle = [CHR 0xF0, CHR 0x9F, CHR 0x9F, CHR 0xA2]"

definition yellow_circle :: string where
  "yellow_circle = [CHR 0xF0, CHR 0x9F, CHR 0x9F, CHR 0xA1]"

definition red_circle :: string where
  "red_circle = [CHR 0xF0, CHR 0x9F, CHR 0x94, CHR 0xB4]"

text \<open>Lines 168 to 176: the pair \<open>(risk_level, color)\<close>.\<close>

definition risk_level :: "float64 \<Rightarrow> string \<times> string" where
  "risk_level probability =
     (if flt probability (float_lit 0.2) then (green_circle @ '' Low Risk'', ''#2ecc71'')
      else if flt probability (float_lit 0.4) then (yellow_circle @ '' Moderate Risk'', ''#f39c12'')
      else (red_circle @ '' High Risk'', ''#e74c3c''))"

text \<open>Lines 208 to 213: the alert box with the recommendation.\<close>

datatype alert = Success string | Warning string | Error string

definition recommendation :: "float64 \<Rightarrow> alert" where
  "recommendation probability =
     (if flt probability (float_lit 0.2)
      then Success ''Loan can be approved under standard underwriting guidelines.''
      else if flt probability (float_lit 0.4)
      then Warning ''Proceed with caution. Consider additional verification or adjusted pricing.''
      else Error ''High default risk detected. Recommend rejection or strong compensating factors.'')"

text \<open>
  The classifier is the unpickled model; only its \<^verbatim>\<open>predict_proba\<close> is used. It returns one
  row of class probabilities per row of the data frame, or raises.
\<close>

type_synonym classifier = "input_data \<Rightarrow> py_error + float64 list list"

definition index :: "'a list \<Rightarrow> nat \<Rightarrow> py_error + 'a" where
  "index xs i = (if i < length xs then Inr (xs ! i) else Inl IndexError)"

text \<open>\<^verbatim>\<open>model.predict_proba(input_data)[0][1]\<close>\<close>

definition predicted_probability :: "classifier \<Rightarrow> input_data \<Rightarrow> py_error + float64" where
  "predicted_probability predict_proba d =
     (case predict_proba d of
        Inl err \<Rightarrow> Inl err
      | Inr rows \<Rightarrow> (case index rows 0 of Inl err \<Rightarrow> Inl err | Inr row \<Rightarrow> index row 1))"

text \<open>
  What the branch renders: the metric (the number shown as a percentage), the risk card, the
  gauge, the table of the three ratios and the recommendation. The table takes the variables
  \<^verbatim>\<open>loan_to_income\<close>, \<^verbatim>\<open>dti_ratio\<close> and \<^verbatim>\<open>employment_ratio\<close>, whose values are the
  fields of the row.
\<close>

record assessment =
  metric :: float64
  card_label :: string
  card_color :: string
  gauge :: figure
  ratio_values :: "pynum list"
  advice :: alert

definition assess :: "classifier \<Rightarrow> input_data \<Rightarrow> py_error + assessment" where
  "assess predict_proba d =
     (case predicted_probability predict_proba d of
        Inl err \<Rightarrow> Inl err
      | Inr probability \<Rightarrow>
          Inr \<lparr>metric = probability,
               card_label = fst (risk_level probability),
               card_color = snd (risk_level probability),
               gauge = plot_gauge probability,
               ratio_values = [LoanToIncome d, PyFloat (DTIRatio d), EmploymentRatio d],
               advice = recommendation probability\<rparr>)"

section \<open>The script\<close>

text \<open>
  One run of the script for given widget values; \<open>button\<close> tells whether the run was started
  by the assess button. The data frame is built in every run, the assessment only under the
  button. Streamlit runs the script again from the top at every interaction, with the cached
  model as the only object that survives. The model is loaded before the first widget (lines
  65 to 69) and is a parameter here; the page layout, the style sheet and the headings carry
  no computation and are left out.
\<close>

record page =
  data :: input_data
  result :: "assessment option"

definition script :: "classifier \<Rightarrow> sidebar \<Rightarrow> bool \<Rightarrow> py_error + page" where
  "script predict_proba s button =
     (case feature_engineering s of
        Inl err \<Rightarrow> Inl err
      | Inr d \<Rightarrow>
          if button
          then (case assess predict_proba d of
                  Inl err \<Rightarrow> Inl err
                | Inr a \<Rightarrow> Inr \<lparr>data = d, result = Some a\<rparr>)
          else Inr \<lparr>data = d, result = None\<rparr>)"

section \<open>Risk tiers\<close>

text \<open>The three ordinal risk tiers, read off the label of the risk card.\<close>

datatype tier = Low | Moderate | High

fun tier_rank :: "tier \<Rightarrow> nat" where
  "tier_rank Low = 0"
| "tier_rank Moderate = 1"
| "tier_rank High = 2"

definition tier_of_label :: "string \<Rightarrow> tier option" where
  "tier_of_label l =
     (if l = green_circle @ '' Low Risk'' then Some Low
      else if l = yellow_circle @ '' Moderate Risk'' then Some Moderate
      else if l = red_circle @ '' High Risk'' then Some High
      else None)"

text \<open>The colour the risk card gives to each tier.\<close>

fun tier_color :: "tier \<Rightarrow> string" where
  "tier_color Low = ''#2ecc71''"
| "tier_color Moderate = ''#f39c12''"
| "tier_color High = ''#e74c3c''"

text \<open>
  The specification's \<open>classify\<close>: the tier and the recommendation the branch under the
  button gives to a probability.
\<close>

definition classify :: "float64 \<Rightarrow> tier option \<times> alert" where
  "classify probability = (tier_of_label (fst (risk_level probability)), recommendation probability)"

text \<open>A probability: a finite binary64 number between 0 and 1.\<close>

fun probability01 :: "float64 \<Rightarrow> bool" where
  "probability01 (Fin64 m e) = (valid64 m e \<and> 0 \<le> value64 m e \<and> value64 m e \<le> 1)"
| "probability01 (Inf64 neg) = False"
| "probability01 NaN64 = False"

text \<open>
  The domain the specification declares for a borrower record: what the widgets enforce, and
  an income and a loan amount that are not negative.
\<close>

definition declared_domain :: "sidebar \<Rightarrow> bool" where
  "declared_domain s \<longleftrightarrow> widgets s \<and> 0 \<le> income s \<and> 0 \<le> loan_amount s"

section \<open>Properties of binary64 rounding\<close>

text \<open>\<open>floor_log2\<close> is the integer part of the binary logarithm.\<close>

lemma bitlen_powi:
  assumes "0 < n"
  shows "(2::rat) powi (bitlen n - 1) \<le> of_int n" "of_int n < (2::rat) powi (bitlen n)"
proof -
  from bitlen_bounds[OF assms] have b: "2 ^ nat (bitlen n - 1) \<le> n" "n < 2 ^ nat (bitlen n)" by auto
  have pos: "1 \<le> bitlen n" using assms by (simp add: bitlen_alt_def)
  have "(of_int (2 ^ nat (bitlen n - 1)) :: rat) \<le> of_int n" using b(1) by (rule of_int_le_iff[THEN iffD2])
  then show "(2::rat) powi (bitlen n - 1) \<le> of_int n"
    using pos by (simp add: power_int_def)
  have "(of_int n :: rat) < of_int (2 ^ nat (bitlen n))" using b(2) by (rule of_int_less_iff[THEN iffD2])
  then show "of_int n < (2::rat) powi (bitlen n)"
    using pos by (simp add: power_int_def)
qed

lemma floor_log2_bounds:
  assumes "0 < a"
  shows "2 powi (floor_log2 a) \<le> a \<and> a < 2 powi (floor_log2 a + 1)"
proof -
  obtain n d where q: "quotient_of a = (n, d)" by (cases "quotient_of a")
  have d: "0 < d" using q by (rule quotient_of_denom_pos)
  have a: "a = of_int n / of_int d" using q by (rule quotient_of_div)
  have n: "0 < n" using assms d a by (simp add: zero_less_divide_iff)
  define k where "k = bitlen n - bitlen d"
  have fl: "floor_log2 a = (if 2 powi k \<le> a then k else k - 1)"
    by (simp add: floor_log2_def q k_def)
  have up: "a < 2 powi (k + 1)"
  proof -
    have "of_int n < (2::rat) powi (bitlen n)" using bitlen_powi[OF n] by simp
    moreover have "(2::rat) powi (bitlen d - 1) \<le> of_int d" using bitlen_powi[OF d] by simp
    ultimately have "of_int n * (2::rat) powi (bitlen d - 1) < 2 powi (bitlen n) * of_int d"
      using d n by (intro mult_less_le_imp_less) auto
    then have "a * 2 powi (bitlen d - 1) < 2 powi (bitlen n)"
      using d by (simp add: a field_simps)
    then have "a < 2 powi (bitlen n) / 2 powi (bitlen d - 1)"
      by (simp add: field_simps)
    also have "\<dots> = 2 powi (k + 1)"
      by (simp add: k_def power_int_diff[symmetric] algebra_simps)
    finally show ?thesis .
  qed
  have lo: "2 powi (k - 1) \<le> a"
  proof -
    have "of_int d < (2::rat) powi (bitlen d)" using bitlen_powi[OF d] by simp
    moreover have "(2::rat) powi (bitlen n - 1) \<le> of_int n" using bitlen_powi[OF n] by simp
    ultimately have "(2::rat) powi (bitlen n - 1) * of_int d \<le> of_int n * 2 powi (bitlen d)"
      using d n by (intro mult_mono) auto
    then have "2 powi (bitlen n - 1) \<le> a * 2 powi (bitlen d)"
      using d by (simp add: a field_simps)
    then have "2 powi (bitlen n - 1) / 2 powi (bitlen d) \<le> a"
      by (simp add: field_simps)
    moreover have "(2::rat) powi (bitlen n - 1) / 2 powi (bitlen d) = 2 powi (k - 1)"
      by (simp add: k_def power_int_diff[symmetric] algebra_simps)
    ultimately show ?thesis by simp
  qed
  show ?thesis
  proof (cases "2 powi k \<le> a")
    case True
    then show ?thesis using up by (simp add: fl)
  next
    case False
    then show ?thesis using lo by (simp add: fl)
  qed
qed

lemma floor_log2_le:
  assumes "0 < a" "a < 2 powi k"
  shows "floor_log2 a < k"
proof (rule ccontr)
  assume "\<not> floor_log2 a < k"
  then have "k \<le> floor_log2 a" by simp
  then have "(2::rat) powi k \<le> 2 powi (floor_log2 a)" by (intro power_int_increasing) auto
  with floor_log2_bounds[OF assms(1)] assms(2) show False by linarith
qed

lemma floor_log2_ge:
  assumes "0 < a" "2 powi k \<le> a"
  shows "k \<le> floor_log2 a"
proof (rule ccontr)
  assume "\<not> k \<le> floor_log2 a"
  then have "floor_log2 a + 1 \<le> k" by simp
  then have "(2::rat) powi (floor_log2 a + 1) \<le> 2 powi k" by (intro power_int_increasing) auto
  with floor_log2_bounds[OF assms(1)] assms(2) show False by linarith
qed

text \<open>Rounding to an integer moves a number by at most one half and keeps integer bounds.\<close>

lemma round_half_even_error: "\<bar>of_int (round_half_even x) - x\<bar> \<le> 1 / 2"
proof -
  have "of_int \<lfloor>x\<rfloor> \<le> x" "x < of_int \<lfloor>x\<rfloor> + 1" by linarith+
  then show ?thesis by (auto simp: round_half_even_def Let_def)
qed

lemma round_half_even_ge: "of_int n \<le> x \<Longrightarrow> n \<le> round_half_even x"
proof -
  assume "of_int n \<le> x"
  then have "n \<le> \<lfloor>x\<rfloor>" by (simp add: le_floor_iff)
  then show ?thesis by (auto simp: round_half_even_def Let_def)
qed

lemma round_half_even_le: "x \<le> of_int n \<Longrightarrow> round_half_even x \<le> n"
proof -
  assume a: "x \<le> of_int n"
  then have f: "\<lfloor>x\<rfloor> \<le> n" by (simp add: floor_le_iff)
  show ?thesis
  proof (cases "\<lfloor>x\<rfloor> = n")
    case True
    then have "x = of_int \<lfloor>x\<rfloor>" using a by (metis of_int_floor_le order_antisym)
    then have "x - of_int \<lfloor>x\<rfloor> = 0" by simp
    then show ?thesis using True by (simp add: round_half_even_def Let_def)
  next
    case False
    then have "\<lfloor>x\<rfloor> + 1 \<le> n" using f by simp
    then show ?thesis by (auto simp: round_half_even_def Let_def)
  qed
qed

text \<open>
  The mantissa lies between 0 and \<open>2^53\<close>, in the normal range from \<open>2^52\<close> on, and the
  rounded number is off by at most half a unit in the last place.
\<close>

lemma exponent64_lower: "- 1074 \<le> exponent64 a" "floor_log2 a - 52 \<le> exponent64 a"
  by (simp_all add: exponent64_def)

lemma mantissa64_nonneg:
  assumes "0 \<le> a"
  shows "0 \<le> mantissa64 a"
proof -
  have "of_int 0 \<le> a / 2 powi exponent64 a" using assms by simp
  then show ?thesis unfolding mantissa64_def by (rule round_half_even_ge)
qed

lemma mantissa64_le:
  assumes "0 < a"
  shows "mantissa64 a \<le> 2 ^ 53"
proof -
  have "a < 2 powi (floor_log2 a + 1)" using floor_log2_bounds[OF assms] by simp
  also have "\<dots> \<le> 2 powi (exponent64 a + 53)"
    using exponent64_lower(2)[of a] by (intro power_int_increasing) auto
  also have "\<dots> = 2 powi exponent64 a * 2 ^ 53"
    by (simp add: power_int_add)
  finally have "a / 2 powi exponent64 a < 2 ^ 53"
    by (simp add: field_simps)
  then have "a / 2 powi exponent64 a \<le> of_int (2 ^ 53)" by simp
  then show ?thesis unfolding mantissa64_def by (rule round_half_even_le)
qed

lemma mantissa64_error:
  "\<bar>of_int (mantissa64 a) * 2 powi exponent64 a - a\<bar> \<le> 2 powi exponent64 a / 2"
proof -
  let ?p = "(2::rat) powi exponent64 a"
  have p: "0 < ?p" by simp
  have "\<bar>of_int (mantissa64 a) - a / ?p\<bar> \<le> 1 / 2"
    unfolding mantissa64_def by (rule round_half_even_error)
  then have "\<bar>of_int (mantissa64 a) - a / ?p\<bar> * ?p \<le> 1 / 2 * ?p"
    using p by (intro mult_right_mono) auto
  moreover have "\<bar>of_int (mantissa64 a) - a / ?p\<bar> * ?p = \<bar>of_int (mantissa64 a) * ?p - a\<bar>"
  proof -
    have "\<bar>of_int (mantissa64 a) - a / ?p\<bar> * ?p = \<bar>(of_int (mantissa64 a) - a / ?p) * ?p\<bar>"
      using p by (simp add: abs_mult)
    also have "(of_int (mantissa64 a) - a / ?p) * ?p = of_int (mantissa64 a) * ?p - a"
      using p by (simp add: field_simps)
    finally show ?thesis .
  qed
  ultimately show ?thesis by simp
qed

lemma mantissa64_normal:
  assumes "2 powi (- 1022) \<le> a"
  shows "exponent64 a = floor_log2 a - 52" "2 ^ 52 \<le> mantissa64 a"
    "2 powi exponent64 a * 2 ^ 52 \<le> a"
proof -
  have pos: "0 < a" using assms by (rule less_le_trans[rotated]) simp
  have "- 1022 \<le> floor_log2 a" using pos assms by (rule floor_log2_ge)
  then show e: "exponent64 a = floor_log2 a - 52" by (simp add: exponent64_def)
  have "2 powi exponent64 a * 2 ^ 52 = (2::rat) powi floor_log2 a"
    by (simp add: e power_int_diff)
  then show le: "2 powi exponent64 a * 2 ^ 52 \<le> a"
    using floor_log2_bounds[OF pos] by simp
  then have "of_int (2 ^ 52) \<le> a / 2 powi exponent64 a"
    by (simp add: field_simps)
  then show "2 ^ 52 \<le> mantissa64 a"
    unfolding mantissa64_def by (rule round_half_even_ge)
qed

lemma exponent64_upper:
  assumes "0 < a" "a < 2 powi 1023"
  shows "exponent64 a \<le> 970"
proof -
  have "floor_log2 a < 1023" using assms by (rule floor_log2_le)
  then show ?thesis by (simp add: exponent64_def)
qed

text \<open>
  Below \<open>2^1023\<close> the result is a finite binary64 number; in the normal range its relative
  error is at most \<open>2^-53\<close>; rounding keeps the sign.
\<close>

lemma round64_value:
  assumes "q \<noteq> 0" "\<bar>q\<bar> < 2 powi 1023"
  shows "\<exists>m e. round64 q = Fin64 m e \<and> valid64 m e \<and>
           value64 m e = sgn q * (of_int (mantissa64 \<bar>q\<bar>) * 2 powi exponent64 \<bar>q\<bar>)"
proof -
  define M where "M = mantissa64 \<bar>q\<bar>"
  define E where "E = exponent64 \<bar>q\<bar>"
  have pos: "0 < \<bar>q\<bar>" using assms(1) by simp
  have up: "E \<le> 970" unfolding E_def using pos assms(2) by (rule exponent64_upper)
  have lo: "- 1074 \<le> E" unfolding E_def by (rule exponent64_lower)
  have m0: "0 \<le> M" unfolding M_def by (rule mantissa64_nonneg) simp
  have m1: "M \<le> 2 ^ 53" unfolding M_def using pos by (rule mantissa64_le)
  have r: "round64 q =
      (if M = 2 ^ 53 then Fin64 (if q < 0 then - (2 ^ 52) else 2 ^ 52) (E + 1)
       else Fin64 (if q < 0 then - M else M) E)"
    using assms(1) up by (simp add: round64_def Let_def M_def E_def)
  show ?thesis
  proof (cases "M = 2 ^ 53")
    case True
    have v: "valid64 (if q < 0 then - (2 ^ 52) else 2 ^ 52) (E + 1)"
      using up lo by (simp add: valid64_def)
    have "(2::rat) powi (E + 1) = 2 powi E * 2"
      by (simp add: power_int_add)
    then have "value64 (if q < 0 then - (2 ^ 52) else 2 ^ 52) (E + 1)
          = sgn q * (of_int M * 2 powi E)"
      using assms(1) True by (simp add: value64_def sgn_if)
    with r v True show ?thesis unfolding M_def E_def by auto
  next
    case False
    have v: "valid64 (if q < 0 then - M else M) E"
      using up lo m0 m1 False by (simp add: valid64_def)
    have "value64 (if q < 0 then - M else M) E = sgn q * (of_int M * 2 powi E)"
      using assms(1) by (simp add: value64_def sgn_if)
    with r v False show ?thesis unfolding M_def E_def by auto
  qed
qed

lemma round64_accurate:
  assumes "2 powi (- 1022) \<le> \<bar>q\<bar>" "\<bar>q\<bar> < 2 powi 1023"
  shows "\<exists>m e. round64 q = Fin64 m e \<and> valid64 m e \<and> \<bar>value64 m e - q\<bar> \<le> \<bar>q\<bar> / 2 ^ 53"
proof -
  let ?a = "\<bar>q\<bar>"
  let ?v = "of_int (mantissa64 ?a) * 2 powi exponent64 ?a"
  have nz: "q \<noteq> 0" using assms(1) by auto
  from round64_value[OF nz assms(2)] obtain m e where
    r: "round64 q = Fin64 m e" and v: "valid64 m e" and val: "value64 m e = sgn q * ?v"
    by blast
  have "value64 m e - q = sgn q * (?v - ?a)"
    by (simp add: val algebra_simps flip: abs_sgn) (simp add: abs_sgn mult.commute)
  then have "\<bar>value64 m e - q\<bar> = \<bar>?v - ?a\<bar>"
    using nz by (simp add: abs_mult abs_sgn_eq)
  also have "\<dots> \<le> 2 powi exponent64 ?a / 2" by (rule mantissa64_error)
  also have "\<dots> \<le> ?a / 2 ^ 53"
    using mantissa64_normal(3)[OF assms(1)] by (simp add: field_simps)
  finally show ?thesis using r v by blast
qed

lemma round64_nonneg:
  assumes "0 \<le> q" "round64 q = Fin64 m e"
  shows "0 \<le> m"
proof (cases "q = 0")
  case True
  then show ?thesis using assms(2) by (simp add: round64_def)
next
  case False
  have "0 \<le> mantissa64 \<bar>q\<bar>" by (rule mantissa64_nonneg) simp
  then show ?thesis using assms False
    by (auto simp: round64_def Let_def split: if_splits)
qed

section \<open>The thresholds 0.2 and 0.4\<close>

text \<open>A binary64 number of at least \<open>2^k\<close> is a multiple of \<open>2^(k-52)\<close>.\<close>

lemma binary64_grid:
  assumes "valid64 m e" "2 powi k \<le> value64 m e"
  shows "\<exists>N::int. value64 m e = of_int N * 2 powi (k - 52)"
proof -
  have pk: "(0::rat) < 2 powi k" by simp
  have "0 < value64 m e" using pk assms(2) by (rule less_le_trans)
  then have "0 < of_int m * (2::rat) powi e" by (simp only: value64_def)
  moreover have "(0::rat) < 2 powi e" by simp
  ultimately have "(0::rat) < of_int m" by (rule zero_less_mult_pos2)
  then have mpos: "0 < m" by simp
  have "m < 2 ^ 53" using assms(1) by (auto simp: valid64_def)
  then have "(of_int m :: rat) < of_int (2 ^ 53)" by (rule of_int_less_iff[THEN iffD2])
  then have "(of_int m :: rat) < 2 powi 53" by simp
  then have "value64 m e < 2 powi 53 * 2 powi e"
    unfolding value64_def by (intro mult_strict_right_mono) auto
  also have "\<dots> = 2 powi (53 + e)" by (simp add: power_int_add)
  finally have lt: "(2::rat) powi k < 2 powi (53 + e)" using assms(2) by simp
  have "k < 53 + e"
  proof (rule ccontr)
    assume "\<not> k < 53 + e"
    then have "53 + e \<le> k" by simp
    then have "(2::rat) powi (53 + e) \<le> 2 powi k" by (intro power_int_increasing) auto
    with lt show False by simp
  qed
  then have ge: "0 \<le> e - (k - 52)" by simp
  have "(2::rat) powi e = 2 powi (e - (k - 52)) * 2 powi (k - 52)"
    by (simp add: power_int_add[symmetric])
  also have "(2::rat) powi (e - (k - 52)) = of_int (2 ^ nat (e - (k - 52)))"
    using ge by (simp add: power_int_def)
  finally have "value64 m e = of_int (m * 2 ^ nat (e - (k - 52))) * 2 powi (k - 52)"
    by (simp add: value64_def)
  then show ?thesis by blast
qed

lemma float_lit_02: "float_lit 0.2 = Fin64 7205759403792794 (- 55)"
  by code_simp

lemma float_lit_04: "float_lit 0.4 = Fin64 7205759403792794 (- 54)"
  by code_simp

text \<open>
  The literals are a little above the decimals they are written as; the floats used as
  examples below.
\<close>

lemma literals_above:
  "(2 / 10 :: rat) < value64 7205759403792794 (- 55)"
  "(4 / 10 :: rat) < value64 7205759403792794 (- 54)"
  by (simp_all add: value64_def)

lemma float_lit_examples:
  "float_lit 0.15 = Fin64 5404319552844595 (- 55)"
  "float_lit 0.3 = Fin64 5404319552844595 (- 54)"
  "float_lit 0.5 = Fin64 4503599627370496 (- 53)"
  "float_lit 0.85 = Fin64 7656119366529843 (- 53)"
  by code_simp+

text \<open>
  A binary64 number is below the literal \<^verbatim>\<open>0.2\<close> exactly when it is below the decimal 0.2:
  from 1/8 on it is a multiple of \<open>2^-55\<close>, and the literal is the least such multiple that is
  not below 0.2. Likewise for \<^verbatim>\<open>0.4\<close> and the multiples of \<open>2^-54\<close>.
\<close>

lemma below_02:
  assumes "valid64 m e"
  shows "value64 m e < value64 7205759403792794 (- 55) \<longleftrightarrow> value64 m e < 2 / 10"
proof
  assume "value64 m e < 2 / 10"
  moreover have "(2 / 10 :: rat) < value64 7205759403792794 (- 55)"
    by (simp add: value64_def)
  ultimately show "value64 m e < value64 7205759403792794 (- 55)" by (rule less_trans)
next
  assume lt: "value64 m e < value64 7205759403792794 (- 55)"
  show "value64 m e < 2 / 10"
  proof (cases "2 powi (- 3) \<le> value64 m e")
    case False
    then have "value64 m e < 1 / 8" by simp
    then show ?thesis by simp
  next
    case True
    from binary64_grid[OF assms True] obtain N :: int
      where N: "value64 m e = of_int N * 2 powi (- 55)" by auto
    have d: "value64 7205759403792794 (- 55) = of_int 7205759403792794 * 2 powi (- 55)"
      by (simp only: value64_def)
    have "of_int N * 2 powi (- 55) < (of_int 7205759403792794 :: rat) * 2 powi (- 55)"
      using lt unfolding N d .
    then have "(of_int N :: rat) < of_int 7205759403792794"
      by (simp only: mult_less_cancel_right_pos zero_less_power_int zero_less_numeral)
    then have "N < 7205759403792794" by (simp only: of_int_less_iff)
    then have "N \<le> 7205759403792793" by simp
    then have "(of_int N :: rat) \<le> of_int 7205759403792793" by (simp only: of_int_le_iff)
    then have "value64 m e \<le> 7205759403792793 * 2 powi (- 55)"
      unfolding N by (intro mult_right_mono) auto
    also have "\<dots> < 2 / 10" by simp
    finally show ?thesis .
  qed
qed

lemma below_04:
  assumes "valid64 m e"
  shows "value64 m e < value64 7205759403792794 (- 54) \<longleftrightarrow> value64 m e < 4 / 10"
proof
  assume "value64 m e < 4 / 10"
  moreover have "(4 / 10 :: rat) < value64 7205759403792794 (- 54)"
    by (simp add: value64_def)
  ultimately show "value64 m e < value64 7205759403792794 (- 54)" by (rule less_trans)
next
  assume lt: "value64 m e < value64 7205759403792794 (- 54)"
  show "value64 m e < 4 / 10"
  proof (cases "2 powi (- 2) \<le> value64 m e")
    case False
    then have "value64 m e < 1 / 4" by simp
    then show ?thesis by simp
  next
    case True
    from binary64_grid[OF assms True] obtain N :: int
      where N: "value64 m e = of_int N * 2 powi (- 54)" by auto
    have d: "value64 7205759403792794 (- 54) = of_int 7205759403792794 * 2 powi (- 54)"
      by (simp only: value64_def)
    have "of_int N * 2 powi (- 54) < (of_int 7205759403792794 :: rat) * 2 powi (- 54)"
      using lt unfolding N d .
    then have "(of_int N :: rat) < of_int 7205759403792794"
      by (simp only: mult_less_cancel_right_pos zero_less_power_int zero_less_numeral)
    then have "N < 7205759403792794" by (simp only: of_int_less_iff)
    then have "N \<le> 7205759403792793" by simp
    then have "(of_int N :: rat) \<le> of_int 7205759403792793" by (simp only: of_int_le_iff)
    then have "value64 m e \<le> 7205759403792793 * 2 powi (- 54)"
      unfolding N by (intro mult_right_mono) auto
    also have "\<dots> < 4 / 10" by simp
    finally show ?thesis .
  qed
qed

lemma flt_02:
  assumes "valid64 m e"
  shows "flt (Fin64 m e) (float_lit 0.2) \<longleftrightarrow> value64 m e < 2 / 10"
  unfolding float_lit_02 flt.simps by (rule below_02[OF assms])

lemma flt_04:
  assumes "valid64 m e"
  shows "flt (Fin64 m e) (float_lit 0.4) \<longleftrightarrow> value64 m e < 4 / 10"
  unfolding float_lit_04 flt.simps by (rule below_04[OF assms])

section \<open>Division of integers\<close>

text \<open>
  Division succeeds for a divisor other than zero and a dividend below \<open>2^1023\<close>; it is
  accurate to \<open>2^-53\<close> when the divisor is at most \<open>2^1022\<close>; the quotient of numbers that
  are not negative is not negative; the only errors are the two of the definition.
\<close>

lemma truediv_zero: "b \<noteq> 0 \<Longrightarrow> truediv 0 b = Inr (PyFloat (Fin64 0 0))"
  by (simp add: truediv_def round64_def)

lemma truediv_total:
  assumes "b \<noteq> 0" "\<bar>a\<bar> < 2 ^ 1023"
  shows "\<exists>m e. truediv a b = Inr (PyFloat (Fin64 m e)) \<and> valid64 m e"
proof (cases "a = 0")
  case True
  then show ?thesis using assms(1) by (simp add: truediv_zero valid64_def)
next
  case False
  let ?q = "of_int a / of_int b :: rat"
  have nz: "?q \<noteq> 0" using False assms(1) by simp
  have b1: "1 \<le> \<bar>of_int b :: rat\<bar>" using assms(1) by (simp flip: of_int_abs)
  have "\<bar>?q\<bar> = \<bar>of_int a\<bar> / \<bar>of_int b\<bar>" by (simp add: abs_divide)
  also have "\<dots> \<le> \<bar>of_int a\<bar>" using b1 by (simp add: field_simps mult_le_cancel_left1)
  also have "\<bar>of_int a :: rat\<bar> < 2 powi 1023"
  proof -
    have "(of_int \<bar>a\<bar> :: rat) < of_int (2 ^ 1023)" using assms(2) by (simp only: of_int_less_iff)
    then show ?thesis by simp
  qed
  finally have "\<bar>?q\<bar> < 2 powi 1023" .
  from round64_value[OF nz this] obtain m e where "round64 ?q = Fin64 m e" "valid64 m e"
    by blast
  then show ?thesis using assms(1) by (simp add: truediv_def)
qed

lemma truediv_accurate:
  assumes "b \<noteq> 0" "\<bar>b\<bar> \<le> 2 ^ 1022" "\<bar>a\<bar> < 2 ^ 1023"
  shows "\<exists>m e. truediv a b = Inr (PyFloat (Fin64 m e)) \<and> valid64 m e \<and>
           \<bar>value64 m e - of_int a / of_int b\<bar> \<le> \<bar>of_int a / of_int b\<bar> / 2 ^ 53"
proof (cases "a = 0")
  case True
  then show ?thesis using assms(1) by (simp add: truediv_zero valid64_def value64_def)
next
  case False
  let ?q = "of_int a / of_int b :: rat"
  have b1: "1 \<le> \<bar>of_int b :: rat\<bar>" using assms(1) by (simp flip: of_int_abs)
  have a1: "1 \<le> \<bar>of_int a :: rat\<bar>" using False by (simp flip: of_int_abs)
  have q: "\<bar>?q\<bar> = \<bar>of_int a\<bar> / \<bar>of_int b\<bar>" by (simp add: abs_divide)
  have "\<bar>?q\<bar> \<le> \<bar>of_int a\<bar>" unfolding q using b1 by (simp add: field_simps mult_le_cancel_left1)
  moreover have "\<bar>of_int a :: rat\<bar> < 2 powi 1023"
  proof -
    have "(of_int \<bar>a\<bar> :: rat) < of_int (2 ^ 1023)" using assms(3) by (simp only: of_int_less_iff)
    then show ?thesis by simp
  qed
  ultimately have hi: "\<bar>?q\<bar> < 2 powi 1023" by simp
  have bb: "\<bar>of_int b :: rat\<bar> \<le> 2 ^ 1022"
  proof -
    have "(of_int \<bar>b\<bar> :: rat) \<le> of_int (2 ^ 1022)" using assms(2) by (simp only: of_int_le_iff)
    then show ?thesis by simp
  qed
  have "(2::rat) powi (- 1022) = 1 / 2 ^ 1022" by (simp add: power_int_minus_divide)
  also have "\<dots> \<le> 1 / \<bar>of_int b\<bar>" using bb b1 by (intro divide_left_mono mult_pos_pos) auto
  also have "\<dots> \<le> \<bar>of_int a\<bar> / \<bar>of_int b\<bar>" using a1 b1 by (intro divide_right_mono) auto
  finally have lo: "2 powi (- 1022) \<le> \<bar>?q\<bar>" unfolding q .
  from round64_accurate[OF lo hi] obtain m e where
    "round64 ?q = Fin64 m e" "valid64 m e" "\<bar>value64 m e - ?q\<bar> \<le> \<bar>?q\<bar> / 2 ^ 53"
    by blast
  then show ?thesis using assms(1) by (simp add: truediv_def)
qed

lemma truediv_nonneg:
  assumes "0 \<le> a" "0 < b" "truediv a b = Inr v"
  shows "\<exists>x. num_value v = Some x \<and> 0 \<le> x"
proof -
  let ?q = "of_int a / of_int b :: rat"
  have q: "0 \<le> ?q" using assms(1,2) by simp
  from assms(2,3) obtain m e where r: "round64 ?q = Fin64 m e" and v: "v = PyFloat (Fin64 m e)"
    by (auto simp: truediv_def split: float64.splits)
  have "0 \<le> m" using q r by (rule round64_nonneg)
  then have "0 \<le> value64 m e" by (simp add: value64_def)
  then show ?thesis by (simp add: v)
qed

lemma truediv_error:
  assumes "truediv a b = Inl err"
  shows "(b = 0 \<and> err = ZeroDivisionError) \<or> (b \<noteq> 0 \<and> err = OverflowError)"
  using assms by (auto simp: truediv_def split: if_splits float64.splits)

section \<open>Risk tiering\<close>

lemma tier_of_label_simps:
  "tier_of_label (green_circle @ '' Low Risk'') = Some Low"
  "tier_of_label (yellow_circle @ '' Moderate Risk'') = Some Moderate"
  "tier_of_label (red_circle @ '' High Risk'') = Some High"
  by (simp_all add: tier_of_label_def green_circle_def yellow_circle_def red_circle_def)

lemma risk_level_finite:
  assumes "valid64 m e"
  shows "risk_level (Fin64 m e) =
     (if value64 m e < 2 / 10 then (green_circle @ '' Low Risk'', ''#2ecc71'')
      else if value64 m e < 4 / 10 then (yellow_circle @ '' Moderate Risk'', ''#f39c12'')
      else (red_circle @ '' High Risk'', ''#e74c3c''))"
  unfolding risk_level_def flt_02[OF assms] flt_04[OF assms] by (rule refl)

lemma recommendation_finite:
  assumes "valid64 m e"
  shows "recommendation (Fin64 m e) =
     (if value64 m e < 2 / 10
      then Success ''Loan can be approved under standard underwriting guidelines.''
      else if value64 m e < 4 / 10
      then Warning ''Proceed with caution. Consider additional verification or adjusted pricing.''
      else Error ''High default risk detected. Recommend rejection or strong compensating factors.'')"
  unfolding recommendation_def flt_02[OF assms] flt_04[OF assms] by (rule refl)

lemma classify_finite:
  assumes "valid64 m e"
  shows "classify (Fin64 m e) =
     (if value64 m e < 2 / 10
      then (Some Low, Success ''Loan can be approved under standard underwriting guidelines.'')
      else if value64 m e < 4 / 10
      then (Some Moderate,
            Warning ''Proceed with caution. Consider additional verification or adjusted pricing.'')
      else (Some High,
            Error ''High default risk detected. Recommend rejection or strong compensating factors.''))"
  unfolding classify_def risk_level_finite[OF assms] recommendation_finite[OF assms]
  by (simp add: tier_of_label_simps)

lemma valid64_lit: "valid64 7205759403792794 (- 55)" "valid64 7205759403792794 (- 54)"
  "valid64 7205759403792793 (- 55)" "valid64 7205759403792793 (- 54)"
  by (simp_all add: valid64_def)

lemma classify_at_02:
  "classify (float_lit 0.2) =
     (Some Moderate,
      Warning ''Proceed with caution. Consider additional verification or adjusted pricing.'')"
  unfolding float_lit_02 classify_finite[OF valid64_lit(1)] by (simp add: value64_def)

lemma classify_at_04:
  "classify (float_lit 0.4) =
     (Some High,
      Error ''High default risk detected. Recommend rejection or strong compensating factors.'')"
  unfolding float_lit_04 classify_finite[OF valid64_lit(2)] by (simp add: value64_def)

text \<open>
  Outside the precondition of the tiering: every comparison with NaN is false, so NaN falls
  through both tests.
\<close>

lemma classify_nan:
  "classify NaN64 =
     (Some High,
      Error ''High default risk detected. Recommend rejection or strong compensating factors.'')"
  by (simp add: classify_def risk_level_def recommendation_def tier_of_label_simps)

text \<open>
  Claim C1. Every probability between 0 and 1 falls in exactly one of three bands: below 0.20
  the tier is Low and the recommendation is to approve under standard guidelines; from 0.20
  and below 0.40 the tier is Moderate and the recommendation is to proceed with caution and
  verify further; from 0.40 on the tier is High and the recommendation is to reject unless
  there are strong compensating factors. The bounds 0.20 and 0.40 are the decimal numbers;
  the source compares with the float literals, which a binary64 probability cannot tell
  apart from them. The probabilities 0.2 and 0.4 themselves are Moderate and High.
\<close>

theorem risk_tiering_bands:
  assumes "probability01 (Fin64 m e)"
  shows "(value64 m e < 0.2 \<longrightarrow>
            classify (Fin64 m e) =
              (Some Low, Success ''Loan can be approved under standard underwriting guidelines.'')) \<and>
         (0.2 \<le> value64 m e \<and> value64 m e < 0.4 \<longrightarrow>
            classify (Fin64 m e) =
              (Some Moderate,
               Warning ''Proceed with caution. Consider additional verification or adjusted pricing.'')) \<and>
         (0.4 \<le> value64 m e \<longrightarrow>
            classify (Fin64 m e) =
              (Some High,
               Error ''High default risk detected. Recommend rejection or strong compensating factors.'')) \<and>
         classify (float_lit 0.2) =
           (Some Moderate,
            Warning ''Proceed with caution. Consider additional verification or adjusted pricing.'') \<and>
         classify (float_lit 0.4) =
           (Some High,
            Error ''High default risk detected. Recommend rejection or strong compensating factors.'')"
proof -
  have v: "valid64 m e" using assms by simp
  show ?thesis
    unfolding classify_at_02 classify_at_04 classify_finite[OF v] by simp
qed

text \<open>The three bands at the floats of 0.15, 0.3 and 0.5 (\<open>float_lit_examples\<close>).\<close>

theorem risk_tiering_bands_witness:
  "probability01 (Fin64 5404319552844595 (- 55)) \<and>
   value64 5404319552844595 (- 55) < 0.2 \<and>
   classify (Fin64 5404319552844595 (- 55)) =
     (Some Low, Success ''Loan can be approved under standard underwriting guidelines.'') \<and>
   probability01 (Fin64 5404319552844595 (- 54)) \<and>
   0.2 \<le> value64 5404319552844595 (- 54) \<and> value64 5404319552844595 (- 54) < 0.4 \<and>
   classify (Fin64 5404319552844595 (- 54)) =
     (Some Moderate,
      Warning ''Proceed with caution. Consider additional verification or adjusted pricing.'') \<and>
   probability01 (Fin64 4503599627370496 (- 53)) \<and>
   0.4 \<le> value64 4503599627370496 (- 53) \<and>
   classify (Fin64 4503599627370496 (- 53)) =
     (Some High,
      Error ''High default risk detected. Recommend rejection or strong compensating factors.'')"
proof -
  have h1: "probability01 (Fin64 5404319552844595 (- 55))"
    by (simp add: valid64_def value64_def)
  have b1: "value64 5404319552844595 (- 55) < 0.2"
    by (simp add: value64_def)
  have h2: "probability01 (Fin64 5404319552844595 (- 54))"
    by (simp add: valid64_def value64_def)
  have b2: "0.2 \<le> value64 5404319552844595 (- 54) \<and> value64 5404319552844595 (- 54) < 0.4"
    by (simp add: value64_def)
  have h3: "probability01 (Fin64 4503599627370496 (- 53))"
    by (simp add: valid64_def value64_def)
  have b3: "0.4 \<le> value64 4503599627370496 (- 53)"
    by (simp add: value64_def)
  from risk_tiering_bands[OF h1] risk_tiering_bands[OF h2] risk_tiering_bands[OF h3]
    h1 b1 h2 b2 h3 b3
  show ?thesis by blast
qed

lemma tier_finite:
  assumes "valid64 m e"
  shows "fst (classify (Fin64 m e)) =
           Some (if value64 m e < 2 / 10 then Low else if value64 m e < 4 / 10 then Moderate else High)"
  unfolding classify_finite[OF assms] by simp

text \<open>
  Claim C7. The tier does not decrease when the probability grows: for probabilities
  \<open>p1 \<le> p2\<close> between 0 and 1 the tier of \<open>p1\<close> is at most the tier of \<open>p2\<close> in the order
  Low, Moderate, High. At the boundaries: every probability below 0.2 is Low, 0.2 is Moderate,
  every probability from 0.2 and below 0.4 is Moderate, and 0.4 is High; so are the largest
  binary64 numbers below 0.2 (Low) and below 0.4 (Moderate).
\<close>

theorem tier_monotonic:
  assumes "probability01 (Fin64 m1 e1)" "probability01 (Fin64 m2 e2)"
    and "value64 m1 e1 \<le> value64 m2 e2"
  shows "(\<exists>t1 t2. fst (classify (Fin64 m1 e1)) = Some t1 \<and>
                   fst (classify (Fin64 m2 e2)) = Some t2 \<and>
                   tier_rank t1 \<le> tier_rank t2) \<and>
         (value64 m1 e1 < 0.2 \<longrightarrow> fst (classify (Fin64 m1 e1)) = Some Low) \<and>
         (0.2 \<le> value64 m1 e1 \<and> value64 m1 e1 < 0.4 \<longrightarrow>
            fst (classify (Fin64 m1 e1)) = Some Moderate) \<and>
         fst (classify (float_lit 0.2)) = Some Moderate \<and>
         fst (classify (float_lit 0.4)) = Some High \<and>
         fst (classify (Fin64 7205759403792793 (- 55))) = Some Low \<and>
         fst (classify (Fin64 7205759403792793 (- 54))) = Some Moderate"
proof -
  have v1: "valid64 m1 e1" and v2: "valid64 m2 e2" using assms(1,2) by simp_all
  have mono: "\<exists>t1 t2. fst (classify (Fin64 m1 e1)) = Some t1 \<and>
                   fst (classify (Fin64 m2 e2)) = Some t2 \<and>
                   tier_rank t1 \<le> tier_rank t2"
    unfolding tier_finite[OF v1] tier_finite[OF v2] using assms(3) by auto
  have bands: "(value64 m1 e1 < 0.2 \<longrightarrow> fst (classify (Fin64 m1 e1)) = Some Low) \<and>
         (0.2 \<le> value64 m1 e1 \<and> value64 m1 e1 < 0.4 \<longrightarrow>
            fst (classify (Fin64 m1 e1)) = Some Moderate)"
    unfolding tier_finite[OF v1] by simp
  have at: "fst (classify (float_lit 0.2)) = Some Moderate"
    "fst (classify (float_lit 0.4)) = Some High"
    unfolding classify_at_02 classify_at_04 by simp_all
  have below: "fst (classify (Fin64 7205759403792793 (- 55))) = Some Low"
    "fst (classify (Fin64 7205759403792793 (- 54))) = Some Moderate"
    unfolding tier_finite[OF valid64_lit(3)] tier_finite[OF valid64_lit(4)]
    by (simp_all add: value64_def)
  from mono bands at below show ?thesis by blast
qed

text \<open>
  The probabilities 0.15 and 0.5: Low, and a tier that is not below it.
\<close>

theorem tier_monotonic_witness:
  "probability01 (Fin64 5404319552844595 (- 55)) \<and>
   probability01 (Fin64 4503599627370496 (- 53)) \<and>
   value64 5404319552844595 (- 55) \<le> value64 4503599627370496 (- 53) \<and>
   value64 5404319552844595 (- 55) < 0.2 \<and>
   fst (classify (Fin64 5404319552844595 (- 55))) = Some Low \<and>
   (\<exists>t1 t2. fst (classify (Fin64 5404319552844595 (- 55))) = Some t1 \<and>
             fst (classify (Fin64 4503599627370496 (- 53))) = Some t2 \<and>
             tier_rank t1 \<le> tier_rank t2)"
proof -
  have h1: "probability01 (Fin64 5404319552844595 (- 55))"
    by (simp add: valid64_def value64_def)
  have h2: "probability01 (Fin64 4503599627370496 (- 53))"
    by (simp add: valid64_def value64_def)
  have le: "value64 5404319552844595 (- 55) \<le> value64 4503599627370496 (- 53)"
    by (simp add: value64_def)
  have lt: "value64 5404319552844595 (- 55) < 0.2"
    by (simp add: value64_def)
  from tier_monotonic[OF h1 h2 le] h1 h2 le lt show ?thesis by blast
qed

section \<open>Gauge colour\<close>

lemma gauge_color_cascade:
  "bar_color (plot_gauge p) = snd (risk_level p)"
  by (simp add: plot_gauge_def risk_level_def Let_def)

lemma risk_level_tier:
  "\<exists>t. tier_of_label (fst (risk_level p)) = Some t \<and> snd (risk_level p) = tier_color t"
proof (cases "flt p (float_lit 0.2)")
  case True
  then have "risk_level p = (green_circle @ '' Low Risk'', ''#2ecc71'')"
    unfolding risk_level_def by (simp only: if_True)
  then have "tier_of_label (fst (risk_level p)) = Some Low \<and> snd (risk_level p) = tier_color Low"
    by (simp add: tier_of_label_simps)
  then show ?thesis by blast
next
  case a: False
  show ?thesis
  proof (cases "flt p (float_lit 0.4)")
    case True
    then have "risk_level p = (yellow_circle @ '' Moderate Risk'', ''#f39c12'')"
      unfolding risk_level_def using a by (simp only: if_True if_False)
    then have "tier_of_label (fst (risk_level p)) = Some Moderate \<and>
               snd (risk_level p) = tier_color Moderate"
      by (simp add: tier_of_label_simps)
    then show ?thesis by blast
  next
    case False
    then have "risk_level p = (red_circle @ '' High Risk'', ''#e74c3c'')"
      unfolding risk_level_def using a by (simp only: if_False)
    then have "tier_of_label (fst (risk_level p)) = Some High \<and>
               snd (risk_level p) = tier_color High"
      by (simp add: tier_of_label_simps)
    then show ?thesis by blast
  qed
qed

text \<open>
  Claim C5. For every probability the colour \<^verbatim>\<open>plot_gauge\<close> gives to the bar is the colour
  the branch under the button gives to the risk card, and both are the colour of the tier of
  that probability; the two cascades are the same function. The three tiers have three
  different colours. This holds for every float, also outside 0 to 1.
\<close>

theorem gauge_color_follows_tier:
  "(\<exists>t. fst (classify p) = Some t \<and>
         snd (risk_level p) = tier_color t \<and>
         bar_color (plot_gauge p) = tier_color t) \<and>
   tier_color Low \<noteq> tier_color Moderate \<and>
   tier_color Low \<noteq> tier_color High \<and>
   tier_color Moderate \<noteq> tier_color High"
proof -
  from risk_level_tier[of p] obtain t where
    "tier_of_label (fst (risk_level p)) = Some t" "snd (risk_level p) = tier_color t" by blast
  then have "fst (classify p) = Some t \<and> snd (risk_level p) = tier_color t \<and>
             bar_color (plot_gauge p) = tier_color t"
    by (simp add: classify_def gauge_color_cascade)
  then show ?thesis by auto
qed

section \<open>The derived ratios\<close>

lemma lti_example: "loan_to_income 200000 80000 = Inr (PyFloat (Fin64 5629499534213120 (- 51)))"
  by code_simp

lemma er_example: "employment_ratio 60 35 = Inr (PyFloat (Fin64 7720456504063707 (- 52)))"
  by code_simp

lemma cup_example: "credit_utilization_proxy 200000 5 = Inr (PyFloat (Fin64 4581298449066667 (- 37)))"
  by code_simp

lemma truediv_no_zero_division: "b \<noteq> 0 \<Longrightarrow> truediv a b \<noteq> Inl ZeroDivisionError"
  by (auto simp: truediv_def split: float64.splits)

text \<open>
  Claim C2. For an income of zero or less the loan-to-income ratio is 0 and no division takes
  place; for a positive income it is \<^verbatim>\<open>loan_amount / income\<close>, which never divides by zero.
  Python's \<^verbatim>\<open>/\<close> gives the binary64 number nearest to the quotient: for operands a float
  can reach, the ratio is within a relative error of \<open>2^-53\<close> of the exact quotient. An income
  of 80000 and a loan of 200000 give exactly 2.5.
\<close>

theorem loan_to_income_formula:
  "(inc \<le> 0 \<longrightarrow> loan_to_income loan inc = Inr (PyInt 0)) \<and>
   (0 < inc \<longrightarrow> loan_to_income loan inc = truediv loan inc \<and>
                 loan_to_income loan inc \<noteq> Inl ZeroDivisionError) \<and>
   (0 < inc \<and> inc \<le> 2 ^ 1022 \<and> \<bar>loan\<bar> < 2 ^ 1023 \<longrightarrow>
      (\<exists>m e. loan_to_income loan inc = Inr (PyFloat (Fin64 m e)) \<and> valid64 m e \<and>
         \<bar>value64 m e - of_int loan / of_int inc\<bar> \<le> \<bar>of_int loan / of_int inc\<bar> / 2 ^ 53)) \<and>
   loan_to_income 200000 80000 = Inr (PyFloat (Fin64 5629499534213120 (- 51))) \<and>
   value64 5629499534213120 (- 51) = 2.5"
proof -
  have guard: "inc \<le> 0 \<longrightarrow> loan_to_income loan inc = Inr (PyInt 0)"
    by (simp add: loan_to_income_def)
  have quot: "0 < inc \<longrightarrow> loan_to_income loan inc = truediv loan inc \<and>
                 loan_to_income loan inc \<noteq> Inl ZeroDivisionError"
    by (simp add: loan_to_income_def truediv_no_zero_division)
  have acc: "0 < inc \<and> inc \<le> 2 ^ 1022 \<and> \<bar>loan\<bar> < 2 ^ 1023 \<longrightarrow>
      (\<exists>m e. loan_to_income loan inc = Inr (PyFloat (Fin64 m e)) \<and> valid64 m e \<and>
         \<bar>value64 m e - of_int loan / of_int inc\<bar> \<le> \<bar>of_int loan / of_int inc\<bar> / 2 ^ 53)"
  proof 
    assume h: "0 < inc \<and> inc \<le> 2 ^ 1022 \<and> \<bar>loan\<bar> < 2 ^ 1023"
    then have "inc \<noteq> 0" "\<bar>inc\<bar> \<le> 2 ^ 1022" "\<bar>loan\<bar> < 2 ^ 1023" by auto
    from truediv_accurate[OF this] h
    show "\<exists>m e. loan_to_income loan inc = Inr (PyFloat (Fin64 m e)) \<and> valid64 m e \<and>
         \<bar>value64 m e - of_int loan / of_int inc\<bar> \<le> \<bar>of_int loan / of_int inc\<bar> / 2 ^ 53"
      by (simp add: loan_to_income_def)
  qed
  have ex: "value64 5629499534213120 (- 51) = 2.5" by (simp add: value64_def)
  from guard quot acc lti_example ex show ?thesis by blast
qed

text \<open>
  Incomes 0 and -5 give the ratio 0; the loan 1 with the income 3 gives the rounded third.
\<close>

theorem loan_to_income_formula_witness:
  "(0::int) \<le> 0 \<and> loan_to_income 200000 0 = Inr (PyInt 0) \<and>
   (- 5::int) \<le> 0 \<and> loan_to_income 200000 (- 5) = Inr (PyInt 0) \<and>
   (0::int) < 3 \<and> (3::int) \<le> 2 ^ 1022 \<and> \<bar>1::int\<bar> < 2 ^ 1023 \<and>
   loan_to_income 1 3 = truediv 1 3 \<and>
   (\<exists>m e. loan_to_income 1 3 = Inr (PyFloat (Fin64 m e)) \<and> valid64 m e \<and>
      \<bar>value64 m e - of_int 1 / of_int 3\<bar> \<le> \<bar>of_int 1 / of_int 3\<bar> / 2 ^ 53)"
proof -
  have h0: "(0::int) \<le> 0" by simp
  have h5: "(- 5::int) \<le> 0" by simp
  have h3: "(0::int) < 3 \<and> (3::int) \<le> 2 ^ 1022 \<and> \<bar>1::int\<bar> < 2 ^ 1023" by simp
  from loan_to_income_formula[of 0 200000] loan_to_income_formula[of "- 5" 200000]
    loan_to_income_formula[of 3 1] h0 h5 h3
  show ?thesis by blast
qed

text \<open>
  Claim C3. For an age of zero or less the employment ratio is 0; for a positive age it is
  \<^verbatim>\<open>months_employed / age\<close>, the binary64 number nearest to the quotient. An age of 35 with
  60 months employed gives the float nearest to 60/35, which rounds to 1.714286.
\<close>

theorem employment_ratio_formula:
  "(years \<le> 0 \<longrightarrow> employment_ratio months years = Inr (PyInt 0)) \<and>
   (0 < years \<longrightarrow> employment_ratio months years = truediv months years \<and>
                   employment_ratio months years \<noteq> Inl ZeroDivisionError) \<and>
   (0 < years \<and> years \<le> 2 ^ 1022 \<and> \<bar>months\<bar> < 2 ^ 1023 \<longrightarrow>
      (\<exists>m e. employment_ratio months years = Inr (PyFloat (Fin64 m e)) \<and> valid64 m e \<and>
         \<bar>value64 m e - of_int months / of_int years\<bar>
           \<le> \<bar>of_int months / of_int years\<bar> / 2 ^ 53)) \<and>
   employment_ratio 60 35 = Inr (PyFloat (Fin64 7720456504063707 (- 52))) \<and>
   \<bar>value64 7720456504063707 (- 52) - 60 / 35\<bar> \<le> (60 / 35) / 2 ^ 53 \<and>
   \<bar>value64 7720456504063707 (- 52) - 1.714286\<bar> < 0.0000005"
proof -
  have guard: "years \<le> 0 \<longrightarrow> employment_ratio months years = Inr (PyInt 0)"
    by (simp add: employment_ratio_def)
  have quot: "0 < years \<longrightarrow> employment_ratio months years = truediv months years \<and>
                   employment_ratio months years \<noteq> Inl ZeroDivisionError"
    by (simp add: employment_ratio_def truediv_no_zero_division)
  have acc: "0 < years \<and> years \<le> 2 ^ 1022 \<and> \<bar>months\<bar> < 2 ^ 1023 \<longrightarrow>
      (\<exists>m e. employment_ratio months years = Inr (PyFloat (Fin64 m e)) \<and> valid64 m e \<and>
         \<bar>value64 m e - of_int months / of_int years\<bar>
           \<le> \<bar>of_int months / of_int years\<bar> / 2 ^ 53)"
  proof
    assume h: "0 < years \<and> years \<le> 2 ^ 1022 \<and> \<bar>months\<bar> < 2 ^ 1023"
    then have "years \<noteq> 0" "\<bar>years\<bar> \<le> 2 ^ 1022" "\<bar>months\<bar> < 2 ^ 1023" by auto
    from truediv_accurate[OF this] h
    show "\<exists>m e. employment_ratio months years = Inr (PyFloat (Fin64 m e)) \<and> valid64 m e \<and>
         \<bar>value64 m e - of_int months / of_int years\<bar>
           \<le> \<bar>of_int months / of_int years\<bar> / 2 ^ 53"
      by (simp add: employment_ratio_def)
  qed
  have ex: "\<bar>value64 7720456504063707 (- 52) - 60 / 35\<bar> \<le> (60 / 35) / 2 ^ 53"
    "\<bar>value64 7720456504063707 (- 52) - 1.714286\<bar> < 0.0000005"
    by (simp_all add: value64_def)
  from guard quot acc er_example ex show ?thesis by blast
qed

text \<open>
  The age 0 gives the ratio 0; the age 35 with 60 months gives the rounded quotient.
\<close>

theorem employment_ratio_formula_witness:
  "(0::int) \<le> 0 \<and> employment_ratio 60 0 = Inr (PyInt 0) \<and>
   (0::int) < 35 \<and> (35::int) \<le> 2 ^ 1022 \<and> \<bar>60::int\<bar> < 2 ^ 1023 \<and>
   employment_ratio 60 35 = truediv 60 35 \<and>
   (\<exists>m e. employment_ratio 60 35 = Inr (PyFloat (Fin64 m e)) \<and> valid64 m e \<and>
      \<bar>value64 m e - of_int 60 / of_int 35\<bar> \<le> \<bar>of_int 60 / of_int 35\<bar> / 2 ^ 53)"
proof -
  have h0: "(0::int) \<le> 0" by simp
  have h35: "(0::int) < 35 \<and> (35::int) \<le> 2 ^ 1022 \<and> \<bar>60::int\<bar> < 2 ^ 1023" by simp
  from employment_ratio_formula[of 0 60] employment_ratio_formula[of 35 60] h0 h35
  show ?thesis by blast
qed

text \<open>The division of line 106 has no guard: it relies on the slider, which starts at 0.\<close>

lemma cup_unguarded: "credit_utilization_proxy loan (- 1) = Inl ZeroDivisionError"
  by (simp add: credit_utilization_proxy_def truediv_def)

text \<open>
  Claim C4. For every loan amount and every number of credit lines that is not negative, the
  credit utilization proxy is \<^verbatim>\<open>loan_amount / (num_credit_lines + 1)\<close>; the divisor is not
  zero, so the division never raises \<^verbatim>\<open>ZeroDivisionError\<close>. The result is the binary64
  number nearest to the quotient. A loan of 200000 with 5 credit lines gives the float
  nearest to 200000/6, which rounds to 33333.33.
\<close>

theorem credit_utilization_proxy_formula:
  "(0 \<le> lines \<longrightarrow> lines + 1 \<noteq> 0 \<and>
      credit_utilization_proxy loan lines = truediv loan (lines + 1) \<and>
      credit_utilization_proxy loan lines \<noteq> Inl ZeroDivisionError) \<and>
   (0 \<le> lines \<and> lines < 2 ^ 1022 \<and> \<bar>loan\<bar> < 2 ^ 1023 \<longrightarrow>
      (\<exists>m e. credit_utilization_proxy loan lines = Inr (PyFloat (Fin64 m e)) \<and> valid64 m e \<and>
         \<bar>value64 m e - of_int loan / of_int (lines + 1)\<bar>
           \<le> \<bar>of_int loan / of_int (lines + 1)\<bar> / 2 ^ 53)) \<and>
   credit_utilization_proxy 200000 5 = Inr (PyFloat (Fin64 4581298449066667 (- 37))) \<and>
   \<bar>value64 4581298449066667 (- 37) - 200000 / 6\<bar> \<le> (200000 / 6) / 2 ^ 53 \<and>
   \<bar>value64 4581298449066667 (- 37) - 33333.33\<bar> < 0.005"
proof -
  have denom: "0 \<le> lines \<longrightarrow> lines + 1 \<noteq> 0 \<and>
      credit_utilization_proxy loan lines = truediv loan (lines + 1) \<and>
      credit_utilization_proxy loan lines \<noteq> Inl ZeroDivisionError"
    by (simp add: credit_utilization_proxy_def truediv_no_zero_division)
  have acc: "0 \<le> lines \<and> lines < 2 ^ 1022 \<and> \<bar>loan\<bar> < 2 ^ 1023 \<longrightarrow>
      (\<exists>m e. credit_utilization_proxy loan lines = Inr (PyFloat (Fin64 m e)) \<and> valid64 m e \<and>
         \<bar>value64 m e - of_int loan / of_int (lines + 1)\<bar>
           \<le> \<bar>of_int loan / of_int (lines + 1)\<bar> / 2 ^ 53)"
  proof
    assume h: "0 \<le> lines \<and> lines < 2 ^ 1022 \<and> \<bar>loan\<bar> < 2 ^ 1023"
    then have "lines + 1 \<noteq> 0" "\<bar>lines + 1\<bar> \<le> 2 ^ 1022" "\<bar>loan\<bar> < 2 ^ 1023" by auto
    from truediv_accurate[OF this]
    show "\<exists>m e. credit_utilization_proxy loan lines = Inr (PyFloat (Fin64 m e)) \<and> valid64 m e \<and>
         \<bar>value64 m e - of_int loan / of_int (lines + 1)\<bar>
           \<le> \<bar>of_int loan / of_int (lines + 1)\<bar> / 2 ^ 53"
      unfolding credit_utilization_proxy_def .
  qed
  have ex: "\<bar>value64 4581298449066667 (- 37) - 200000 / 6\<bar> \<le> (200000 / 6) / 2 ^ 53"
    "\<bar>value64 4581298449066667 (- 37) - 33333.33\<bar> < 0.005"
    by (simp_all add: value64_def)
  from denom acc cup_example ex show ?thesis by blast
qed

text \<open>
  No credit line, and the loan of 200000 with 5 credit lines.
\<close>

theorem credit_utilization_proxy_formula_witness:
  "(0::int) \<le> 0 \<and> credit_utilization_proxy 200000 0 = truediv 200000 (0 + 1) \<and>
   credit_utilization_proxy 200000 0 \<noteq> Inl ZeroDivisionError \<and>
   (0::int) \<le> 5 \<and> (5::int) < 2 ^ 1022 \<and> \<bar>200000::int\<bar> < 2 ^ 1023 \<and>
   (\<exists>m e. credit_utilization_proxy 200000 5 = Inr (PyFloat (Fin64 m e)) \<and> valid64 m e \<and>
      \<bar>value64 m e - of_int 200000 / of_int (5 + 1)\<bar>
        \<le> \<bar>of_int 200000 / of_int (5 + 1)\<bar> / 2 ^ 53)"
proof -
  have h0: "(0::int) \<le> 0" by simp
  have h5: "(0::int) \<le> 5 \<and> (5::int) < 2 ^ 1022 \<and> \<bar>200000::int\<bar> < 2 ^ 1023" by simp
  from credit_utilization_proxy_formula[of 0 200000] credit_utilization_proxy_formula[of 5 200000]
    h0 h5
  show ?thesis by blast
qed

lemma truediv_non_negative:
  assumes "0 \<le> a" "0 < b" "truediv a b = Inr v"
  shows "non_negative v"
  using truediv_nonneg[OF assms] by (auto simp: non_negative_def)

text \<open>
  Claim C10. For a borrower whose income, loan amount and months employed are not negative,
  whose age is at least 18 and whose number of credit lines is not negative, none of the
  three derived ratios is negative. The ratios exist unless a quotient is too large for a
  float, which takes a loan amount or a number of months of \<open>2^1023\<close> or more.
\<close>

theorem derived_ratios_non_negative:
  assumes "0 \<le> inc" "0 \<le> loan" "0 \<le> months" "18 \<le> years" "0 \<le> lines"
  shows "(\<forall>v. loan_to_income loan inc = Inr v \<longrightarrow> non_negative v) \<and>
         (\<forall>v. employment_ratio months years = Inr v \<longrightarrow> non_negative v) \<and>
         (\<forall>v. credit_utilization_proxy loan lines = Inr v \<longrightarrow> non_negative v) \<and>
         (loan < 2 ^ 1023 \<longrightarrow>
            (\<exists>v. loan_to_income loan inc = Inr v) \<and>
            (\<exists>v. credit_utilization_proxy loan lines = Inr v)) \<and>
         (months < 2 ^ 1023 \<longrightarrow> (\<exists>v. employment_ratio months years = Inr v))"
proof -
  have lti: "\<forall>v. loan_to_income loan inc = Inr v \<longrightarrow> non_negative v"
  proof (intro allI impI)
    fix v assume r: "loan_to_income loan inc = Inr v"
    show "non_negative v"
    proof (cases "0 < inc")
      case True
      with r have "truediv loan inc = Inr v" by (simp add: loan_to_income_def)
      with assms(2) True show ?thesis by (rule truediv_non_negative)
    next
      case False
      with r have "v = PyInt 0" by (simp add: loan_to_income_def)
      then show ?thesis by (simp add: non_negative_def)
    qed
  qed
  have y: "0 < years" using assms(4) by simp
  have er: "\<forall>v. employment_ratio months years = Inr v \<longrightarrow> non_negative v"
  proof (intro allI impI)
    fix v assume "employment_ratio months years = Inr v"
    with y have "truediv months years = Inr v" by (simp add: employment_ratio_def)
    with assms(3) y show "non_negative v" by (rule truediv_non_negative)
  qed
  have l: "0 < lines + 1" using assms(5) by simp
  have cup: "\<forall>v. credit_utilization_proxy loan lines = Inr v \<longrightarrow> non_negative v"
  proof (intro allI impI)
    fix v assume "credit_utilization_proxy loan lines = Inr v"
    then have "truediv loan (lines + 1) = Inr v" by (simp add: credit_utilization_proxy_def)
    with assms(2) l show "non_negative v" by (rule truediv_non_negative)
  qed
  have tot1: "loan < 2 ^ 1023 \<longrightarrow>
            (\<exists>v. loan_to_income loan inc = Inr v) \<and>
            (\<exists>v. credit_utilization_proxy loan lines = Inr v)"
  proof
    assume "loan < 2 ^ 1023"
    then have b: "\<bar>loan\<bar> < 2 ^ 1023" using assms(2) by simp
    have "\<exists>v. loan_to_income loan inc = Inr v"
    proof (cases "0 < inc")
      case True
      then have "inc \<noteq> 0" by simp
      from truediv_total[OF this b] True show ?thesis by (auto simp: loan_to_income_def)
    next
      case False
      then show ?thesis by (simp add: loan_to_income_def)
    qed
    moreover have "\<exists>v. credit_utilization_proxy loan lines = Inr v"
    proof -
      have "lines + 1 \<noteq> 0" using l by simp
      from truediv_total[OF this b] show ?thesis by (auto simp: credit_utilization_proxy_def)
    qed
    ultimately show "(\<exists>v. loan_to_income loan inc = Inr v) \<and>
            (\<exists>v. credit_utilization_proxy loan lines = Inr v)" by blast
  qed
  have tot2: "months < 2 ^ 1023 \<longrightarrow> (\<exists>v. employment_ratio months years = Inr v)"
  proof
    assume "months < 2 ^ 1023"
    then have b: "\<bar>months\<bar> < 2 ^ 1023" using assms(3) by simp
    have "years \<noteq> 0" using y by simp
    from truediv_total[OF this b] y show "\<exists>v. employment_ratio months years = Inr v"
      by (auto simp: employment_ratio_def)
  qed
  from lti er cup tot1 tot2 show ?thesis by blast
qed

text \<open>
  The widgets' initial values.
\<close>

theorem derived_ratios_non_negative_witness:
  "(0::int) \<le> 80000 \<and> (0::int) \<le> 200000 \<and> (0::int) \<le> 60 \<and> (18::int) \<le> 35 \<and> (0::int) \<le> 5 \<and>
   loan_to_income 200000 80000 = Inr (PyFloat (Fin64 5629499534213120 (- 51))) \<and>
   non_negative (PyFloat (Fin64 5629499534213120 (- 51))) \<and>
   employment_ratio 60 35 = Inr (PyFloat (Fin64 7720456504063707 (- 52))) \<and>
   non_negative (PyFloat (Fin64 7720456504063707 (- 52))) \<and>
   credit_utilization_proxy 200000 5 = Inr (PyFloat (Fin64 4581298449066667 (- 37))) \<and>
   non_negative (PyFloat (Fin64 4581298449066667 (- 37)))"
proof -
  have h: "(0::int) \<le> 80000" "(0::int) \<le> 200000" "(0::int) \<le> 60" "(18::int) \<le> 35" "(0::int) \<le> 5"
    by simp_all
  from derived_ratios_non_negative[OF h] lti_example er_example cup_example h
  show ?thesis by blast
qed

section \<open>The assessed probability\<close>

lemma predicted_probability_second:
  assumes "predict_proba d = Inr ((p_no_default # p_default # others) # rows)"
  shows "predicted_probability predict_proba d = Inr p_default"
  by (simp add: predicted_probability_def assms index_def)

lemma initial_row:
  "feature_engineering initial_sidebar =
     Inr \<lparr>Age = 35, Income = 80000, LoanAmount = 200000, CreditScore = 650,
          MonthsEmployed = 60, NumCreditLines = 5,
          InterestRate = Fin64 8444249301319680 (- 50), LoanTerm = 120,
          DTIRatio = Fin64 6305039478318694 (- 54),
          LoanToIncome = PyFloat (Fin64 5629499534213120 (- 51)),
          EmploymentRatio = PyFloat (Fin64 7720456504063707 (- 52)),
          CreditUtilizationProxy = PyFloat (Fin64 4581298449066667 (- 37)),
          Education = ''High School'', EmploymentType = ''Salaried'',
          MaritalStatus = ''Single'', HasMortgage = ''Yes'',
          HasDependents = ''Yes'', LoanPurpose = ''Home Purchase'',
          HasCoSigner = ''Yes''\<rparr>"
  by code_simp

text \<open>
  Claim C8. When the classifier answers the data frame of the run with rows whose first row
  is \<open>[p_no_default, p_default, ...]\<close>, the probability of the assessment is \<open>p_default\<close>,
  the second component of that row: it is the number the metric shows, the risk card and the
  recommendation are those of \<open>p_default\<close>, and the gauge is drawn for \<open>p_default\<close>.
\<close>

theorem assessed_probability_is_second_component:
  assumes "feature_engineering s = Inr d"
    and "predict_proba d = Inr ((p_no_default # p_default # others) # rows)"
  shows "predicted_probability predict_proba d = Inr p_default \<and>
         script predict_proba s True =
           Inr \<lparr>data = d,
                result = Some \<lparr>metric = p_default,
                               card_label = fst (risk_level p_default),
                               card_color = snd (risk_level p_default),
                               gauge = plot_gauge p_default,
                               ratio_values = [LoanToIncome d, PyFloat (DTIRatio d), EmploymentRatio d],
                               advice = recommendation p_default\<rparr>\<rparr> \<and>
         bar_width (plot_gauge p_default) = p_default \<and>
         label_value (plot_gauge p_default) = p_default"
proof -
  have p: "predicted_probability predict_proba d = Inr p_default"
    using assms(2) by (rule predicted_probability_second)
  have "script predict_proba s True =
           Inr \<lparr>data = d,
                result = Some \<lparr>metric = p_default,
                               card_label = fst (risk_level p_default),
                               card_color = snd (risk_level p_default),
                               gauge = plot_gauge p_default,
                               ratio_values = [LoanToIncome d, PyFloat (DTIRatio d), EmploymentRatio d],
                               advice = recommendation p_default\<rparr>\<rparr>"
    by (simp add: script_def assms(1) assess_def p)
  moreover have "bar_width (plot_gauge p_default) = p_default \<and>
         label_value (plot_gauge p_default) = p_default"
    by (simp add: plot_gauge_def Let_def)
  ultimately show ?thesis using p by blast
qed

text \<open>
  The initial widget values with a classifier that answers with the floats of
  \<open>[0.85, 0.15]\<close>: the assessment shows 0.15.
\<close>

theorem assessed_probability_is_second_component_witness:
  "\<exists>d. feature_engineering initial_sidebar = Inr d \<and>
        (\<lambda>_. Inr [[Fin64 7656119366529843 (- 53), Fin64 5404319552844595 (- 55)]]) d =
           (Inr (([Fin64 7656119366529843 (- 53), Fin64 5404319552844595 (- 55)]) # [])
              :: py_error + float64 list list) \<and>
        script (\<lambda>_. Inr [[Fin64 7656119366529843 (- 53), Fin64 5404319552844595 (- 55)]])
          initial_sidebar True =
           Inr \<lparr>data = d,
                result = Some \<lparr>metric = Fin64 5404319552844595 (- 55),
                               card_label = fst (risk_level (Fin64 5404319552844595 (- 55))),
                               card_color = snd (risk_level (Fin64 5404319552844595 (- 55))),
                               gauge = plot_gauge (Fin64 5404319552844595 (- 55)),
                               ratio_values = [LoanToIncome d, PyFloat (DTIRatio d), EmploymentRatio d],
                               advice = recommendation (Fin64 5404319552844595 (- 55))\<rparr>\<rparr>"
proof -
  let ?c = "(\<lambda>_. Inr [[Fin64 7656119366529843 (- 53), Fin64 5404319552844595 (- 55)]])
              :: classifier"
  obtain d where d: "feature_engineering initial_sidebar = Inr d" using initial_row by blast
  have c: "?c d = Inr ((Fin64 7656119366529843 (- 53) # Fin64 5404319552844595 (- 55) # []) # [])"
    by simp
  from assessed_probability_is_second_component[OF d c] d c show ?thesis by blast
qed

section \<open>Input outside the declared domain\<close>

lemma negative_income_row:
  "feature_engineering (initial_sidebar\<lparr>income := - 1\<rparr>) =
     Inr \<lparr>Age = 35, Income = - 1, LoanAmount = 200000, CreditScore = 650,
          MonthsEmployed = 60, NumCreditLines = 5,
          InterestRate = Fin64 8444249301319680 (- 50), LoanTerm = 120,
          DTIRatio = Fin64 6305039478318694 (- 54),
          LoanToIncome = PyInt 0,
          EmploymentRatio = PyFloat (Fin64 7720456504063707 (- 52)),
          CreditUtilizationProxy = PyFloat (Fin64 4581298449066667 (- 37)),
          Education = ''High School'', EmploymentType = ''Salaried'',
          MaritalStatus = ''Single'', HasMortgage = ''Yes'',
          HasDependents = ''Yes'', LoanPurpose = ''Home Purchase'',
          HasCoSigner = ''Yes''\<rparr>"
  by code_simp

lemma negative_income_widgets: "widgets (initial_sidebar\<lparr>income := - 1\<rparr>)"
  by code_simp

lemma negative_loan_row:
  "feature_engineering (initial_sidebar\<lparr>loan_amount := - 200000\<rparr>) =
     Inr \<lparr>Age = 35, Income = 80000, LoanAmount = - 200000, CreditScore = 650,
          MonthsEmployed = 60, NumCreditLines = 5,
          InterestRate = Fin64 8444249301319680 (- 50), LoanTerm = 120,
          DTIRatio = Fin64 6305039478318694 (- 54),
          LoanToIncome = PyFloat (Fin64 (- 5629499534213120) (- 51)),
          EmploymentRatio = PyFloat (Fin64 7720456504063707 (- 52)),
          CreditUtilizationProxy = PyFloat (Fin64 (- 4581298449066667) (- 37)),
          Education = ''High School'', EmploymentType = ''Salaried'',
          MaritalStatus = ''Single'', HasMortgage = ''Yes'',
          HasDependents = ''Yes'', LoanPurpose = ''Home Purchase'',
          HasCoSigner = ''Yes''\<rparr>"
  by code_simp

lemma negative_loan_widgets: "widgets (initial_sidebar\<lparr>loan_amount := - 200000\<rparr>)"
  by code_simp

text \<open>
  Claim C6 says that a record with a field outside its declared domain is rejected before
  feature derivation. The script has no such check. With an income of -1, which
  \<^verbatim>\<open>number_input\<close> accepts, the row is built with a loan-to-income ratio of 0 and the
  assessment is rendered; with a loan amount of -200000 the row is built with negative
  ratios and the assessment is rendered as well.
\<close>

theorem out_of_domain_not_rejected:
  "widgets (initial_sidebar\<lparr>income := - 1\<rparr>) \<and>
   \<not> declared_domain (initial_sidebar\<lparr>income := - 1\<rparr>) \<and>
   feature_engineering (initial_sidebar\<lparr>income := - 1\<rparr>) =
     Inr \<lparr>Age = 35, Income = - 1, LoanAmount = 200000, CreditScore = 650,
          MonthsEmployed = 60, NumCreditLines = 5,
          InterestRate = Fin64 8444249301319680 (- 50), LoanTerm = 120,
          DTIRatio = Fin64 6305039478318694 (- 54),
          LoanToIncome = PyInt 0,
          EmploymentRatio = PyFloat (Fin64 7720456504063707 (- 52)),
          CreditUtilizationProxy = PyFloat (Fin64 4581298449066667 (- 37)),
          Education = ''High School'', EmploymentType = ''Salaried'',
          MaritalStatus = ''Single'', HasMortgage = ''Yes'',
          HasDependents = ''Yes'', LoanPurpose = ''Home Purchase'',
          HasCoSigner = ''Yes''\<rparr> \<and>
   (case script (\<lambda>_. Inr [[Fin64 7656119366529843 (- 53), Fin64 5404319552844595 (- 55)]])
           (initial_sidebar\<lparr>income := - 1\<rparr>) True of
      Inl err \<Rightarrow> False
    | Inr pg \<Rightarrow> Income (data pg) = - 1 \<and> LoanToIncome (data pg) = PyInt 0 \<and>
                 result pg \<noteq> None) \<and>
   widgets (initial_sidebar\<lparr>loan_amount := - 200000\<rparr>) \<and>
   \<not> declared_domain (initial_sidebar\<lparr>loan_amount := - 200000\<rparr>) \<and>
   feature_engineering (initial_sidebar\<lparr>loan_amount := - 200000\<rparr>) =
     Inr \<lparr>Age = 35, Income = 80000, LoanAmount = - 200000, CreditScore = 650,
          MonthsEmployed = 60, NumCreditLines = 5,
          InterestRate = Fin64 8444249301319680 (- 50), LoanTerm = 120,
          DTIRatio = Fin64 6305039478318694 (- 54),
          LoanToIncome = PyFloat (Fin64 (- 5629499534213120) (- 51)),
          EmploymentRatio = PyFloat (Fin64 7720456504063707 (- 52)),
          CreditUtilizationProxy = PyFloat (Fin64 (- 4581298449066667) (- 37)),
          Education = ''High School'', EmploymentType = ''Salaried'',
          MaritalStatus = ''Single'', HasMortgage = ''Yes'',
          HasDependents = ''Yes'', LoanPurpose = ''Home Purchase'',
          HasCoSigner = ''Yes''\<rparr> \<and>
   (case script (\<lambda>_. Inr [[Fin64 7656119366529843 (- 53), Fin64 5404319552844595 (- 55)]])
           (initial_sidebar\<lparr>loan_amount := - 200000\<rparr>) True of
      Inl err \<Rightarrow> False
    | Inr pg \<Rightarrow> LoanAmount (data pg) = - 200000 \<and>
                 negative (LoanToIncome (data pg)) \<and>
                 negative (CreditUtilizationProxy (data pg)) \<and>
                 result pg \<noteq> None)"
proof -
  have a: "\<not> declared_domain (initial_sidebar\<lparr>income := - 1\<rparr>)"
    by (simp add: declared_domain_def initial_sidebar_def)
  have b: "\<not> declared_domain (initial_sidebar\<lparr>loan_amount := - 200000\<rparr>)"
    by (simp add: declared_domain_def initial_sidebar_def)
  have c: "(case script (\<lambda>_. Inr [[Fin64 7656119366529843 (- 53), Fin64 5404319552844595 (- 55)]])
           (initial_sidebar\<lparr>income := - 1\<rparr>) True of
      Inl err \<Rightarrow> False
    | Inr pg \<Rightarrow> Income (data pg) = - 1 \<and> LoanToIncome (data pg) = PyInt 0 \<and>
                 result pg \<noteq> None)"
    by (simp add: script_def negative_income_row assess_def predicted_probability_def index_def)
  have c': "(case script (\<lambda>_. Inr [[Fin64 7656119366529843 (- 53), Fin64 5404319552844595 (- 55)]])
           (initial_sidebar\<lparr>loan_amount := - 200000\<rparr>) True of
      Inl err \<Rightarrow> False
    | Inr pg \<Rightarrow> LoanAmount (data pg) = - 200000 \<and>
                 negative (LoanToIncome (data pg)) \<and>
                 negative (CreditUtilizationProxy (data pg)) \<and>
                 result pg \<noteq> None)"
    by (simp add: script_def negative_loan_row assess_def predicted_probability_def index_def
          negative_def value64_def)
  from a b c c' negative_income_row negative_income_widgets negative_loan_row
    negative_loan_widgets
  show ?thesis by blast
qed

text \<open>The row holds the base fields and the three ratios of the sidebar values.\<close>

lemma feature_engineering_fields:
  assumes "feature_engineering s = Inr d"
  shows "base_record d = s"
    and "loan_to_income (loan_amount s) (income s) = Inr (LoanToIncome d)"
    and "employment_ratio (months_employed s) (age s) = Inr (EmploymentRatio d)"
    and "credit_utilization_proxy (loan_amount s) (num_credit_lines s) = Inr (CreditUtilizationProxy d)"
  using assms
  by (auto simp: feature_engineering_def base_record_def split: sum.splits)

lemma widgets_bounds:
  assumes "widgets s"
  shows "0 < age s" "\<bar>months_employed s\<bar> < 2 ^ 1023" "num_credit_lines s + 1 \<noteq> 0"
  using assms by (auto simp: widgets_def slider_def)

text \<open>
  A run without the button returns the row; a run under the button fails only where the
  probability cannot be read, and otherwise renders the assessment. The quotient of a
  negative loan amount is negative.
\<close>

lemma truediv_negative:
  assumes "a < 0" "0 < b" "b \<le> 2 ^ 1022" "\<bar>a\<bar> < 2 ^ 1023" "truediv a b = Inr v"
  shows "negative v"
proof -
  let ?q = "of_int a / of_int b :: rat"
  have q: "?q < 0" using assms(1,2) by (simp add: divide_neg_pos)
  have "b \<noteq> 0" "\<bar>b\<bar> \<le> 2 ^ 1022" using assms(2,3) by simp_all
  from truediv_accurate[OF this assms(4)] obtain m e where
    r: "truediv a b = Inr (PyFloat (Fin64 m e))"
    and acc: "\<bar>value64 m e - ?q\<bar> \<le> \<bar>?q\<bar> / 2 ^ 53" by blast
  define x where "x = \<bar>?q\<bar>"
  have "?q \<noteq> 0" using q by (rule less_imp_neq)
  then have "0 < \<bar>?q\<bar>" by (rule zero_less_abs_iff[THEN iffD2])
  then have "0 < x" by (simp only: x_def)
  then have "x / 2 ^ 53 < x" by simp
  with acc have "\<bar>value64 m e - ?q\<bar> < \<bar>?q\<bar>" unfolding x_def by simp
  with q have "value64 m e < 0" by linarith
  moreover have "v = PyFloat (Fin64 m e)" using r assms(5) by simp
  ultimately show ?thesis by (simp add: negative_def)
qed

lemma script_without_button:
  assumes "feature_engineering s = Inr d"
  shows "script predict_proba s False = Inr \<lparr>data = d, result = None\<rparr>"
  by (simp add: script_def assms)

lemma script_button_error:
  assumes "feature_engineering s = Inr d" "script predict_proba s True = Inl err"
  shows "predicted_probability predict_proba d = Inl err"
  using assms by (auto simp: script_def assess_def split: sum.splits)

lemma script_button_result:
  assumes "feature_engineering s = Inr d" "predicted_probability predict_proba d = Inr p"
  shows "script predict_proba s True =
           Inr \<lparr>data = d,
                result = Some \<lparr>metric = p,
                               card_label = fst (risk_level p),
                               card_color = snd (risk_level p),
                               gauge = plot_gauge p,
                               ratio_values = [LoanToIncome d, PyFloat (DTIRatio d), EmploymentRatio d],
                               advice = recommendation p\<rparr>\<rparr>"
  by (simp add: script_def assess_def assms)

lemma widgets_lines:
  assumes "widgets s"
  shows "0 < num_credit_lines s + 1" "num_credit_lines s + 1 \<le> 2 ^ 1022"
  using assms by (auto simp: widgets_def slider_def)

text \<open>
  Claim C6, amended. The script rejects no record. For every record the widgets can deliver,
  with a loan amount below \<open>2^1023\<close> in magnitude, whether the income and the loan amount are
  negative or not, and for every classifier: the row is built, with every base field copied
  unchanged; a run without the button returns the page with that row; a run under the button
  fails only with an error of the classifier call or of its indexing, and otherwise renders
  the assessment of the classifier's probability. The only value that is replaced is the
  loan-to-income ratio, which is 0 when the income is zero or less; the other ratios are the
  quotients of the fields as they are, so that a negative loan amount gives a negative credit
  utilization proxy and, with a positive income, a negative loan-to-income ratio.
\<close>

theorem no_input_validation:
  assumes "widgets s" "\<bar>loan_amount s\<bar> < 2 ^ 1023"
  shows "\<exists>d. feature_engineering s = Inr d \<and> base_record d = s \<and>
           script predict_proba s False = Inr \<lparr>data = d, result = None\<rparr> \<and>
           (\<forall>err. script predict_proba s True = Inl err \<longrightarrow>
                    predicted_probability predict_proba d = Inl err) \<and>
           (\<forall>p. predicted_probability predict_proba d = Inr p \<longrightarrow>
                  (\<exists>a. script predict_proba s True = Inr \<lparr>data = d, result = Some a\<rparr> \<and>
                       metric a = p)) \<and>
           (income s \<le> 0 \<longrightarrow> LoanToIncome d = PyInt 0) \<and>
           (0 < income s \<longrightarrow> truediv (loan_amount s) (income s) = Inr (LoanToIncome d)) \<and>
           truediv (months_employed s) (age s) = Inr (EmploymentRatio d) \<and>
           truediv (loan_amount s) (num_credit_lines s + 1) = Inr (CreditUtilizationProxy d) \<and>
           (loan_amount s < 0 \<longrightarrow> negative (CreditUtilizationProxy d)) \<and>
           (loan_amount s < 0 \<and> 0 < income s \<and> income s \<le> 2 ^ 1022 \<longrightarrow>
              negative (LoanToIncome d))"
proof -
  note w = widgets_bounds[OF assms(1)]
  have "\<exists>v. loan_to_income (loan_amount s) (income s) = Inr v"
  proof (cases "0 < income s")
    case True
    then have "income s \<noteq> 0" by simp
    from truediv_total[OF this assms(2)] True show ?thesis by (auto simp: loan_to_income_def)
  next
    case False
    then show ?thesis by (simp add: loan_to_income_def)
  qed
  then obtain lti where lti: "loan_to_income (loan_amount s) (income s) = Inr lti" by blast
  have "age s \<noteq> 0" using w(1) by simp
  from truediv_total[OF this w(2)] w(1)
  obtain er where er: "employment_ratio (months_employed s) (age s) = Inr er"
    by (auto simp: employment_ratio_def)
  from truediv_total[OF w(3) assms(2)]
  obtain cup where cup: "credit_utilization_proxy (loan_amount s) (num_credit_lines s) = Inr cup"
    by (auto simp: credit_utilization_proxy_def)
  obtain d where d: "feature_engineering s = Inr d"
    by (simp add: feature_engineering_def lti er cup)
  note f = feature_engineering_fields[OF d]
  have nb: "script predict_proba s False = Inr \<lparr>data = d, result = None\<rparr>"
    using d by (rule script_without_button)
  have be: "\<forall>err. script predict_proba s True = Inl err \<longrightarrow>
                    predicted_probability predict_proba d = Inl err"
    using script_button_error[OF d] by blast
  have br: "\<forall>p. predicted_probability predict_proba d = Inr p \<longrightarrow>
                  (\<exists>a. script predict_proba s True = Inr \<lparr>data = d, result = Some a\<rparr> \<and>
                       metric a = p)"
  proof (intro allI impI)
    fix p assume "predicted_probability predict_proba d = Inr p"
    from script_button_result[OF d this]
    show "\<exists>a. script predict_proba s True = Inr \<lparr>data = d, result = Some a\<rparr> \<and> metric a = p"
      by simp
  qed
  have g: "income s \<le> 0 \<longrightarrow> LoanToIncome d = PyInt 0"
    using f(2) by (auto simp: loan_to_income_def)
  have q: "0 < income s \<longrightarrow> truediv (loan_amount s) (income s) = Inr (LoanToIncome d)"
    using f(2) by (auto simp: loan_to_income_def)
  have e: "truediv (months_employed s) (age s) = Inr (EmploymentRatio d)"
    using f(3) w(1) by (simp add: employment_ratio_def)
  have c: "truediv (loan_amount s) (num_credit_lines s + 1) = Inr (CreditUtilizationProxy d)"
    using f(4) by (simp add: credit_utilization_proxy_def)
  have n1: "loan_amount s < 0 \<longrightarrow> negative (CreditUtilizationProxy d)"
  proof
    assume "loan_amount s < 0"
    from this widgets_lines[OF assms(1)] assms(2) c
    show "negative (CreditUtilizationProxy d)" by (rule truediv_negative)
  qed
  have n2: "loan_amount s < 0 \<and> 0 < income s \<and> income s \<le> 2 ^ 1022 \<longrightarrow>
              negative (LoanToIncome d)"
  proof
    assume h: "loan_amount s < 0 \<and> 0 < income s \<and> income s \<le> 2 ^ 1022"
    then have t: "truediv (loan_amount s) (income s) = Inr (LoanToIncome d)" using q by blast
    from h have "loan_amount s < 0" "0 < income s" "income s \<le> 2 ^ 1022" by blast+
    from this assms(2) t show "negative (LoanToIncome d)" by (rule truediv_negative)
  qed
  from d f(1) nb be br g q e c n1 n2 show ?thesis by blast
qed

text \<open>
  The initial widget values with an income of -1, and with a loan amount of -200000, with a
  classifier that answers with the floats of \<open>[0.85, 0.15]\<close>.
\<close>

theorem no_input_validation_witness:
  "widgets (initial_sidebar\<lparr>income := - 1\<rparr>) \<and>
   \<bar>loan_amount (initial_sidebar\<lparr>income := - 1\<rparr>)\<bar> < 2 ^ 1023 \<and>
   income (initial_sidebar\<lparr>income := - 1\<rparr>) \<le> 0 \<and>
   (\<exists>d. feature_engineering (initial_sidebar\<lparr>income := - 1\<rparr>) = Inr d \<and>
        base_record d = initial_sidebar\<lparr>income := - 1\<rparr> \<and>
        LoanToIncome d = PyInt 0 \<and>
        script (\<lambda>_. Inr [[Fin64 7656119366529843 (- 53), Fin64 5404319552844595 (- 55)]])
          (initial_sidebar\<lparr>income := - 1\<rparr>) False = Inr \<lparr>data = d, result = None\<rparr> \<and>
        predicted_probability
          (\<lambda>_. Inr [[Fin64 7656119366529843 (- 53), Fin64 5404319552844595 (- 55)]]) d =
          Inr (Fin64 5404319552844595 (- 55)) \<and>
        (\<exists>a. script (\<lambda>_. Inr [[Fin64 7656119366529843 (- 53), Fin64 5404319552844595 (- 55)]])
               (initial_sidebar\<lparr>income := - 1\<rparr>) True = Inr \<lparr>data = d, result = Some a\<rparr> \<and>
             metric a = Fin64 5404319552844595 (- 55))) \<and>
   widgets (initial_sidebar\<lparr>loan_amount := - 200000\<rparr>) \<and>
   \<bar>loan_amount (initial_sidebar\<lparr>loan_amount := - 200000\<rparr>)\<bar> < 2 ^ 1023 \<and>
   loan_amount (initial_sidebar\<lparr>loan_amount := - 200000\<rparr>) < 0 \<and>
   0 < income (initial_sidebar\<lparr>loan_amount := - 200000\<rparr>) \<and>
   income (initial_sidebar\<lparr>loan_amount := - 200000\<rparr>) \<le> 2 ^ 1022 \<and>
   (\<exists>d. feature_engineering (initial_sidebar\<lparr>loan_amount := - 200000\<rparr>) = Inr d \<and>
        script (\<lambda>_. Inr [[Fin64 7656119366529843 (- 53), Fin64 5404319552844595 (- 55)]])
          (initial_sidebar\<lparr>loan_amount := - 200000\<rparr>) False = Inr \<lparr>data = d, result = None\<rparr> \<and>
        negative (CreditUtilizationProxy d) \<and> negative (LoanToIncome d))"
proof -
  let ?c = "(\<lambda>_. Inr [[Fin64 7656119366529843 (- 53), Fin64 5404319552844595 (- 55)]])
              :: classifier"
  let ?s = "initial_sidebar\<lparr>income := - 1\<rparr>"
  let ?t = "initial_sidebar\<lparr>loan_amount := - 200000\<rparr>"
  have b: "\<bar>loan_amount ?s\<bar> < 2 ^ 1023" by (simp add: initial_sidebar_def)
  have i: "income ?s \<le> 0" by simp
  have p: "\<And>d. predicted_probability ?c d = Inr (Fin64 5404319552844595 (- 55))"
    by (rule predicted_probability_second) simp
  have b': "\<bar>loan_amount ?t\<bar> < 2 ^ 1023" by simp
  have l: "loan_amount ?t < 0" by simp
  have j: "0 < income ?t" "income ?t \<le> 2 ^ 1022" by (simp_all add: initial_sidebar_def)
  from no_input_validation[OF negative_income_widgets b, of ?c]
    no_input_validation[OF negative_loan_widgets b', of ?c]
    negative_income_widgets negative_loan_widgets b i p b' l j
  show ?thesis by blast
qed

end
